theory Spec2Isabelle
  imports Complex_Main
begin

section \<open>Python values used by the services\<close>

text \<open>
  Strings are byte strings (UTF-8); the Cyrillic literals of the source are written as
  their UTF-8 bytes.
\<close>

datatype py_error =
  ValueError | KeyError | TypeError | AttributeError | IndexError
  | OSError | JSONDecodeError | ParserError | DatabaseError | TimeoutException | ConnectError

definition lower_char :: "char \<Rightarrow> char" where
  "lower_char c =
     (case map_of (zip ''ABCDEFGHIJKLMNOPQRSTUVWXYZ'' ''abcdefghijklmnopqrstuvwxyz'') c of
        Some d \<Rightarrow> d
      | None \<Rightarrow> c)"

text \<open>
  \<open>str.lower\<close> on the UTF-8 bytes. The ASCII letters are lowered. Two characters
  outside ASCII have a lowercase form that holds an ASCII letter, and both are lowered as
  Python does: KELVIN SIGN (U+212A, bytes \<open>E2 84 AA\<close>) becomes \<open>k\<close>, and LATIN CAPITAL
  LETTER I WITH DOT ABOVE (U+0130, bytes \<open>C4 B0\<close>) becomes \<open>i\<close> followed by COMBINING
  DOT ABOVE (U+0307, bytes \<open>CC 87\<close>). Every other character outside ASCII keeps its
  bytes: its lowercase form in Python lies outside ASCII as well, so the ASCII letters of
  the result, and what separates them, are those of Python's result, and an ASCII keyword
  occurs in the one exactly when it occurs in the other.
\<close>

fun lower :: "string \<Rightarrow> string" where
  "lower (a # b # c # cs) =
     (if [a, b, c] = [CHR 0xE2, CHR 0x84, CHR 0xAA] then CHR ''k'' # lower cs
      else if [a, b] = [CHR 0xC4, CHR 0xB0] then [CHR ''i'', CHR 0xCC, CHR 0x87] @ lower (c # cs)
      else lower_char a # lower (b # c # cs))"
| "lower [a, b] =
     (if [a, b] = [CHR 0xC4, CHR 0xB0] then [CHR ''i'', CHR 0xCC, CHR 0x87]
      else [lower_char a, lower_char b])"
| "lower [a] = [lower_char a]"
| "lower [] = []"

fun startswith :: "string \<Rightarrow> string \<Rightarrow> bool" where
  "startswith s [] = True"
| "startswith [] (p # ps) = False"
| "startswith (c # cs) (p # ps) = (c = p \<and> startswith cs ps)"

text \<open>\<open>substring_in p s\<close> is Python's \<open>p in s\<close> on strings.\<close>

fun substring_in :: "string \<Rightarrow> string \<Rightarrow> bool" where
  "substring_in p [] = (p = [])"
| "substring_in p (c # cs) = (startswith (c # cs) p \<or> substring_in p cs)"

text \<open>\<open>any(keyword in s for keyword in keywords)\<close>\<close>

definition any_keyword_in :: "string list \<Rightarrow> string \<Rightarrow> bool" where
  "any_keyword_in keywords s = list_ex (\<lambda>keyword. substring_in keyword s) keywords"

section \<open>The data model (models/schemas.py)\<close>

datatype SourceType = CSV | POSTGRESQL | CLICKHOUSE | JSON | EXCEL | REST_API

datatype UpdateFrequency = ONCE | HOURLY | DAILY | WEEKLY | REALTIME

text \<open>
  \<open>DataSourceConfig.schema_info\<close> is an \<open>Optional[Dict[str, Any]]\<close>. The services read
  three of its keys, each with \<open>.get(key, default)\<close>, and test the dictionary for
  truthiness. The dictionary is modelled by the presence and value of those three keys and
  by whether it holds any other key.
\<close>

record schema_dict =
  sd_columns :: "string list option"
  sd_row_count :: "int option"
  sd_unique_counts :: "(string \<rightharpoonup> int) option"
  sd_other_keys :: bool

text \<open>\<open>bool(schema_info)\<close> for a dictionary: false for the empty one only.\<close>

definition dict_truthy :: "schema_dict \<Rightarrow> bool" where
  "dict_truthy d =
     (sd_columns d \<noteq> None \<or> sd_row_count d \<noteq> None \<or> sd_unique_counts d \<noteq> None \<or> sd_other_keys d)"

definition get_columns :: "schema_dict \<Rightarrow> string list" where
  "get_columns d = (case sd_columns d of None \<Rightarrow> [] | Some cs \<Rightarrow> cs)"

definition get_row_count :: "schema_dict \<Rightarrow> int \<Rightarrow> int" where
  "get_row_count d dflt = (case sd_row_count d of None \<Rightarrow> dflt | Some n \<Rightarrow> n)"

definition get_unique_count :: "schema_dict \<Rightarrow> string \<Rightarrow> int" where
  "get_unique_count d field =
     (case sd_unique_counts d of
        None \<Rightarrow> 0
      | Some m \<Rightarrow> (case m field of None \<Rightarrow> 0 | Some n \<Rightarrow> n))"

record DataSourceConfig =
  ds_id :: string
  ds_name :: string
  ds_type :: SourceType
  ds_config :: "string \<rightharpoonup> string"
  ds_schema_info :: "schema_dict option"

record BusinessRequirements =
  goal :: string
  target_metrics :: "string list"
  update_frequency :: UpdateFrequency
  expected_load :: string
  data_retention :: string


section \<open>The relationship detector (services/analyzer.py)\<close>

subsection \<open>\<open>_identify_primary_key\<close>\<close>

text \<open>
  \<open>common_fields\<close> is a Python set; the function iterates over it. The model takes the
  set as the list of its elements in iteration order.
\<close>

definition priority_patterns :: "string list" where
  "priority_patterns = [''id'', ''uuid'', ''key'', ''code'']"

text \<open>The inner loop: the first field, in iteration order, whose lowercase name holds the pattern.\<close>

fun first_field_with :: "string \<Rightarrow> string list \<Rightarrow> string option" where
  "first_field_with pattern [] = None"
| "first_field_with pattern (field # rest) =
     (if substring_in pattern (lower field) then Some field
      else first_field_with pattern rest)"

text \<open>The outer loop over the patterns, in priority order.\<close>

fun by_priority :: "string list \<Rightarrow> string list \<Rightarrow> string option" where
  "by_priority [] common_fields = None"
| "by_priority (pattern # patterns) common_fields =
     (case first_field_with pattern common_fields of
        Some field \<Rightarrow> Some field
      | None \<Rightarrow> by_priority patterns common_fields)"

text \<open>
  The score of a field. Python's \<open>/\<close> on two integers yields a double, and the scores
  are compared as doubles: two quotients that differ as fractions can be the same double.
  \<open>truediv a b\<close> stands for the double that \<open>a / b\<close> evaluates to, given by its value;
  the second operand is at least 1 here.
\<close>

definition uniqueness ::
  "(int \<Rightarrow> int \<Rightarrow> rat) \<Rightarrow> schema_dict \<Rightarrow> schema_dict \<Rightarrow> string \<Rightarrow> rat" where
  "uniqueness truediv info1 info2 field =
     min (truediv (get_unique_count info1 field) (max (get_row_count info1 1) 1))
         (truediv (get_unique_count info2 field) (max (get_row_count info2 1) 1))"

text \<open>
  The second loop, with its two variables \<open>best_field\<close> and \<open>max_uniqueness\<close> as the
  state.
\<close>

fun most_unique :: "(string \<Rightarrow> rat) \<Rightarrow> string list \<Rightarrow> string option \<times> rat \<Rightarrow> string option \<times> rat" where
  "most_unique score [] state = state"
| "most_unique score (field # rest) (best_field, max_uniqueness) =
     (if score field > max_uniqueness
      then most_unique score rest (Some field, score field)
      else most_unique score rest (best_field, max_uniqueness))"

definition first_of :: "string list \<Rightarrow> string option" where
  "first_of common_fields = (case common_fields of [] \<Rightarrow> None | field # _ \<Rightarrow> Some field)"

definition identify_primary_key ::
  "(int \<Rightarrow> int \<Rightarrow> rat) \<Rightarrow> string list \<Rightarrow> DataSourceConfig \<Rightarrow> DataSourceConfig
     \<Rightarrow> string option" where
  "identify_primary_key truediv common_fields source1 source2 =
     (case by_priority priority_patterns common_fields of
        Some field \<Rightarrow> Some field
      | None \<Rightarrow>
          (case (ds_schema_info source1, ds_schema_info source2) of
             (Some info1, Some info2) \<Rightarrow>
               if dict_truthy info1 \<and> dict_truthy info2
               then fst (most_unique (uniqueness truediv info1 info2) common_fields (None, 0))
               else first_of common_fields
           | _ \<Rightarrow> first_of common_fields))"

subsection \<open>\<open>find_relationships\<close>\<close>





subsection \<open>Example sources\<close>






subsection \<open>The pairs of sources, as the specification counts them\<close>


definition index_pairs :: "nat \<Rightarrow> (nat \<times> nat) list" where
  "index_pairs n = concat (map (\<lambda>i. map (\<lambda>j. (i, j)) [Suc i..<n]) [0..<n])"


text \<open>
  The two profiled sources of the end-to-end scenario (\<open>orders\<close> and \<open>customers\<close>) and a
  source that was never profiled.
\<close>

definition orders :: DataSourceConfig where
  "orders =
     \<lparr> ds_id = ''orders'', ds_name = ''orders'', ds_type = CSV, ds_config = Map.empty,
       ds_schema_info = Some \<lparr> sd_columns = Some [''order_id'', ''customer_id'', ''amount'', ''created_at''],
                                sd_row_count = Some 500000,
                                sd_unique_counts = Some [''order_id'' \<mapsto> 1000, ''customer_id'' \<mapsto> 400,
                                                         ''amount'' \<mapsto> 700, ''created_at'' \<mapsto> 990],
                                sd_other_keys = True \<rparr> \<rparr>"

definition customers :: DataSourceConfig where
  "customers =
     \<lparr> ds_id = ''customers'', ds_name = ''customers'', ds_type = POSTGRESQL, ds_config = Map.empty,
       ds_schema_info = Some \<lparr> sd_columns = Some [''customer_id'', ''name'', ''country''],
                                sd_row_count = Some 10000,
                                sd_unique_counts = Some [''customer_id'' \<mapsto> 1000, ''name'' \<mapsto> 950,
                                                         ''country'' \<mapsto> 30],
                                sd_other_keys = True \<rparr> \<rparr>"

definition unprofiled :: DataSourceConfig where
  "unprofiled =
     \<lparr> ds_id = ''events'', ds_name = ''events'', ds_type = JSON, ds_config = Map.empty,
       ds_schema_info = None \<rparr>"

section \<open>The pattern classifier (services/analyzer.py)\<close>

subsection \<open>\<open>analyze_data_patterns\<close>\<close>

record DataPatterns =
  has_temporal_data :: bool
  temporal_columns :: "string list"
  has_geographical_data :: bool
  geographical_columns :: "string list"
  total_estimated_rows :: int
  data_types_distribution :: "(string \<times> int) list"
  suggested_partitioning :: "string option"

definition initial_patterns :: DataPatterns where
  "initial_patterns =
     \<lparr> has_temporal_data = False, temporal_columns = [],
       has_geographical_data = False, geographical_columns = [],
       total_estimated_rows = 0, data_types_distribution = [],
       suggested_partitioning = None \<rparr>"

definition temporal_keywords :: "string list" where
  "temporal_keywords = [''date'', ''time'', ''created'', ''updated'', ''timestamp'']"

definition geo_keywords :: "string list" where
  "geo_keywords = [''lat'', ''lon'', ''city'', ''country'', ''region'', ''address'']"

text \<open>The first loop over the columns of one source.\<close>

fun scan_temporal :: "string list \<Rightarrow> DataPatterns \<Rightarrow> DataPatterns" where
  "scan_temporal [] patterns = patterns"
| "scan_temporal (col # cols) patterns =
     (let col_lower = lower col
      in if any_keyword_in temporal_keywords col_lower
         then scan_temporal cols
                (patterns\<lparr> has_temporal_data := True,
                            temporal_columns := temporal_columns patterns @ [col] \<rparr>)
         else scan_temporal cols patterns)"

text \<open>The second loop over the columns of one source.\<close>

fun scan_geographical :: "string list \<Rightarrow> DataPatterns \<Rightarrow> DataPatterns" where
  "scan_geographical [] patterns = patterns"
| "scan_geographical (col # cols) patterns =
     (let col_lower = lower col
      in if any_keyword_in geo_keywords col_lower
         then scan_geographical cols
                (patterns\<lparr> has_geographical_data := True,
                            geographical_columns := geographical_columns patterns @ [col] \<rparr>)
         else scan_geographical cols patterns)"

text \<open>
  The loop over the sources; its state is \<open>patterns\<close>, \<open>total_rows\<close> and
  \<open>all_columns\<close>.
\<close>

fun scan_sources ::
  "DataSourceConfig list \<Rightarrow> DataPatterns \<times> int \<times> string list \<Rightarrow> DataPatterns \<times> int \<times> string list" where
  "scan_sources [] state = state"
| "scan_sources (source # rest) (patterns, total_rows, all_columns) =
     (case ds_schema_info source of
        None \<Rightarrow> scan_sources rest (patterns, total_rows, all_columns)
      | Some info \<Rightarrow>
          if dict_truthy info
          then let columns = get_columns info
               in scan_sources rest
                    (scan_geographical columns (scan_temporal columns patterns),
                     total_rows + get_row_count info 0,
                     all_columns @ columns)
          else scan_sources rest (patterns, total_rows, all_columns))"

definition analyze_data_patterns :: "DataSourceConfig list \<Rightarrow> DataPatterns" where
  "analyze_data_patterns sources =
     (case scan_sources sources (initial_patterns, 0, []) of
        (scanned, total_rows, all_columns) \<Rightarrow>
          let patterns = scanned\<lparr> total_estimated_rows := total_rows \<rparr>
          in if has_temporal_data patterns
             then if total_rows > 1000000
                  then patterns\<lparr> suggested_partitioning := Some ''monthly'' \<rparr>
                  else if total_rows > 100000
                       then patterns\<lparr> suggested_partitioning := Some ''yearly'' \<rparr>
                       else patterns
             else patterns)"

text \<open>What a source contributes, in the specification's words.\<close>

definition profiled_columns :: "DataSourceConfig \<Rightarrow> string list" where
  "profiled_columns source =
     (case ds_schema_info source of None \<Rightarrow> [] | Some info \<Rightarrow> get_columns info)"

definition profiled_rows :: "DataSourceConfig \<Rightarrow> int" where
  "profiled_rows source =
     (case ds_schema_info source of None \<Rightarrow> 0 | Some info \<Rightarrow> get_row_count info 0)"

section \<open>The recommendation engine (services/llm_service.py)\<close>

subsection \<open>Values exchanged with the generative backend\<close>

text \<open>
  A parsed JSON document, which is also the shape of every dictionary the service returns.
  Python's \<open>None\<close> is \<open>JNull\<close>.
\<close>

datatype json =
  JNull | JBool bool | JNum int | JFloat rat | JStr string | JArr "json list"
  | JObj "(string \<times> json) list"

text \<open>\<open>bool(value)\<close>\<close>

definition json_truthy :: "json \<Rightarrow> bool" where
  "json_truthy value =
     (case value of
        JNull \<Rightarrow> False
      | JBool b \<Rightarrow> b
      | JNum n \<Rightarrow> n \<noteq> 0
      | JFloat x \<Rightarrow> x \<noteq> 0
      | JStr s \<Rightarrow> s \<noteq> []
      | JArr xs \<Rightarrow> xs \<noteq> []
      | JObj kvs \<Rightarrow> kvs \<noteq> [])"

text \<open>\<open>value[key]\<close> with a string key, and \<open>value[index]\<close> with a non-negative index.\<close>

definition getitem_key :: "json \<Rightarrow> string \<Rightarrow> py_error + json" where
  "getitem_key value key =
     (case value of
        JObj kvs \<Rightarrow> (case map_of kvs key of None \<Rightarrow> Inl KeyError | Some v \<Rightarrow> Inr v)
      | _ \<Rightarrow> Inl TypeError)"

definition getitem_index :: "json \<Rightarrow> nat \<Rightarrow> py_error + json" where
  "getitem_index value i =
     (case value of
        JArr xs \<Rightarrow> if i < length xs then Inr (xs ! i) else Inl IndexError
      | JStr s \<Rightarrow> if i < length s then Inr (JStr [s ! i]) else Inl IndexError
      | JObj kvs \<Rightarrow> Inl KeyError
      | _ \<Rightarrow> Inl TypeError)"

definition then_do :: "py_error + 'a \<Rightarrow> ('a \<Rightarrow> py_error + 'b) \<Rightarrow> py_error + 'b" where
  "then_do m f = (case m of Inl e \<Rightarrow> Inl e | Inr x \<Rightarrow> f x)"

text \<open>
  \<open>data_patterns\<close> is a \<open>Dict[str, Any]\<close>, read with \<open>.get(key, default)\<close>: each of the
  keys the service reads may be missing. The rule-based strategy reads the first three;
  the prompt reads all four.
\<close>

record patterns_dict =
  pd_total_estimated_rows :: "int option"
  pd_has_temporal_data :: "bool option"
  pd_temporal_columns :: "string list option"
  pd_has_geographical_data :: "bool option"

definition as_patterns_dict :: "DataPatterns \<Rightarrow> patterns_dict" where
  "as_patterns_dict p =
     \<lparr> pd_total_estimated_rows = Some (total_estimated_rows p),
       pd_has_temporal_data = Some (has_temporal_data p),
       pd_temporal_columns = Some (temporal_columns p),
       pd_has_geographical_data = Some (has_geographical_data p) \<rparr>"

subsection \<open>\<open>_generate_rule_based_recommendations\<close>\<close>

text \<open>The four analytics keywords and the three justifications, as UTF-8 bytes.\<close>

definition kw_sales :: string where
  "kw_sales =
     [CHR 0xD0, CHR 0xBF, CHR 0xD1, CHR 0x80, CHR 0xD0, CHR 0xBE, CHR 0xD0, CHR 0xB4,
      CHR 0xD0, CHR 0xB0, CHR 0xD0, CHR 0xB6, CHR 0xD0, CHR 0xB8]"

definition kw_analytics :: string where
  "kw_analytics =
     [CHR 0xD0, CHR 0xB0, CHR 0xD0, CHR 0xBD, CHR 0xD0, CHR 0xB0, CHR 0xD0, CHR 0xBB,
      CHR 0xD0, CHR 0xB8, CHR 0xD1, CHR 0x82, CHR 0xD0, CHR 0xB8, CHR 0xD0, CHR 0xBA,
      CHR 0xD0, CHR 0xB0]"

definition kw_report :: string where
  "kw_report =
     [CHR 0xD0, CHR 0xBE, CHR 0xD1, CHR 0x82, CHR 0xD1, CHR 0x87, CHR 0xD0, CHR 0xB5,
      CHR 0xD1, CHR 0x82]"

definition kw_dashboard :: string where
  "kw_dashboard =
     [CHR 0xD0, CHR 0xB4, CHR 0xD0, CHR 0xB0, CHR 0xD1, CHR 0x88, CHR 0xD0, CHR 0xB1,
      CHR 0xD0, CHR 0xBE, CHR 0xD1, CHR 0x80, CHR 0xD0, CHR 0xB4]"

definition reasoning_analytics :: string where
  "reasoning_analytics =
     [CHR 0xD0, CHR 0x90, CHR 0xD0, CHR 0xBD, CHR 0xD0, CHR 0xB0, CHR 0xD0, CHR 0xBB,
      CHR 0xD0, CHR 0xB8, CHR 0xD1, CHR 0x82, CHR 0xD0, CHR 0xB8, CHR 0xD1, CHR 0x87,
      CHR 0xD0, CHR 0xB5, CHR 0xD1, CHR 0x81, CHR 0xD0, CHR 0xBA, CHR 0xD0, CHR 0xB8,
      CHR 0xD0, CHR 0xB5, CHR 0x20, CHR 0xD0, CHR 0xB7, CHR 0xD0, CHR 0xB0, CHR 0xD0,
      CHR 0xBF, CHR 0xD1, CHR 0x80, CHR 0xD0, CHR 0xBE, CHR 0xD1, CHR 0x81, CHR 0xD1,
      CHR 0x8B, CHR 0x20, CHR 0xD0, CHR 0xBF, CHR 0xD0, CHR 0xBE, CHR 0x20, CHR 0xD0,
      CHR 0xB2, CHR 0xD1, CHR 0x80, CHR 0xD0, CHR 0xB5, CHR 0xD0, CHR 0xBC, CHR 0xD0,
      CHR 0xB5, CHR 0xD0, CHR 0xBD, CHR 0xD0, CHR 0xBD, CHR 0xD1, CHR 0x8B, CHR 0xD0,
      CHR 0xBC, CHR 0x20, CHR 0xD0, CHR 0xB4, CHR 0xD0, CHR 0xB0, CHR 0xD0, CHR 0xBD,
      CHR 0xD0, CHR 0xBD, CHR 0xD1, CHR 0x8B, CHR 0xD0, CHR 0xBC, CHR 0x20, CHR 0xD1,
      CHR 0x81, CHR 0x20, CHR 0xD0, CHR 0xB1, CHR 0xD0, CHR 0xBE, CHR 0xD0, CHR 0xBB,
      CHR 0xD1, CHR 0x8C, CHR 0xD1, CHR 0x88, CHR 0xD0, CHR 0xB8, CHR 0xD0, CHR 0xBC,
      CHR 0x20, CHR 0xD0, CHR 0xBE, CHR 0xD0, CHR 0xB1, CHR 0xD1, CHR 0x8A, CHR 0xD0,
      CHR 0xB5, CHR 0xD0, CHR 0xBC, CHR 0xD0, CHR 0xBE, CHR 0xD0, CHR 0xBC]"

definition reasoning_volume :: string where
  "reasoning_volume =
     [CHR 0xD0, CHR 0x91, CHR 0xD0, CHR 0xBE, CHR 0xD0, CHR 0xBB, CHR 0xD1, CHR 0x8C,
      CHR 0xD1, CHR 0x88, CHR 0xD0, CHR 0xBE, CHR 0xD0, CHR 0xB9, CHR 0x20, CHR 0xD0,
      CHR 0xBE, CHR 0xD0, CHR 0xB1, CHR 0xD1, CHR 0x8A, CHR 0xD0, CHR 0xB5, CHR 0xD0,
      CHR 0xBC, CHR 0x20, CHR 0xD0, CHR 0xB4, CHR 0xD0, CHR 0xB0, CHR 0xD0, CHR 0xBD,
      CHR 0xD0, CHR 0xBD, CHR 0xD1, CHR 0x8B, CHR 0xD1, CHR 0x85, CHR 0x20, CHR 0xD1,
      CHR 0x82, CHR 0xD1, CHR 0x80, CHR 0xD0, CHR 0xB5, CHR 0xD0, CHR 0xB1, CHR 0xD1,
      CHR 0x83, CHR 0xD0, CHR 0xB5, CHR 0xD1, CHR 0x82, CHR 0x20, CHR 0xD0, CHR 0xBA,
      CHR 0xD0, CHR 0xBE, CHR 0xD0, CHR 0xBB, CHR 0xD0, CHR 0xBE, CHR 0xD0, CHR 0xBD,
      CHR 0xD0, CHR 0xBE, CHR 0xD1, CHR 0x87, CHR 0xD0, CHR 0xBD, CHR 0xD0, CHR 0xBE,
      CHR 0xD0, CHR 0xB3, CHR 0xD0, CHR 0xBE, CHR 0x20, CHR 0xD1, CHR 0x85, CHR 0xD1,
      CHR 0x80, CHR 0xD0, CHR 0xB0, CHR 0xD0, CHR 0xBD, CHR 0xD0, CHR 0xB8, CHR 0xD0,
      CHR 0xBB, CHR 0xD0, CHR 0xB8, CHR 0xD1, CHR 0x89, CHR 0xD0, CHR 0xB0]"

definition reasoning_standard :: string where
  "reasoning_standard =
     [CHR 0xD0, CHR 0xA1, CHR 0xD1, CHR 0x82, CHR 0xD0, CHR 0xB0, CHR 0xD0, CHR 0xBD,
      CHR 0xD0, CHR 0xB4, CHR 0xD0, CHR 0xB0, CHR 0xD1, CHR 0x80, CHR 0xD1, CHR 0x82,
      CHR 0xD0, CHR 0xBD, CHR 0xD1, CHR 0x8B, CHR 0xD0, CHR 0xB5, CHR 0x20, CHR 0xD0,
      CHR 0xBE, CHR 0xD0, CHR 0xBF, CHR 0xD0, CHR 0xB5, CHR 0xD1, CHR 0x80, CHR 0xD0,
      CHR 0xB0, CHR 0xD1, CHR 0x86, CHR 0xD0, CHR 0xB8, CHR 0xD0, CHR 0xBE, CHR 0xD0,
      CHR 0xBD, CHR 0xD0, CHR 0xBD, CHR 0xD1, CHR 0x8B, CHR 0xD0, CHR 0xB5, CHR 0x20,
      CHR 0xD0, CHR 0xB4, CHR 0xD0, CHR 0xB0, CHR 0xD0, CHR 0xBD, CHR 0xD0, CHR 0xBD,
      CHR 0xD1, CHR 0x8B, CHR 0xD0, CHR 0xB5, CHR 0x20, CHR 0xD1, CHR 0x81, CHR 0xD1,
      CHR 0x80, CHR 0xD0, CHR 0xB5, CHR 0xD0, CHR 0xB4, CHR 0xD0, CHR 0xBD, CHR 0xD0,
      CHR 0xB5, CHR 0xD0, CHR 0xB9, CHR 0x20, CHR 0xD0, CHR 0xBD, CHR 0xD0, CHR 0xB0,
      CHR 0xD0, CHR 0xB3, CHR 0xD1, CHR 0x80, CHR 0xD1, CHR 0x83, CHR 0xD0, CHR 0xB7,
      CHR 0xD0, CHR 0xBA, CHR 0xD0, CHR 0xB8]"

definition analytics_keywords :: "string list" where
  "analytics_keywords = [kw_sales, kw_analytics, kw_report, kw_dashboard]"

record StorageRecommendation =
  primary :: string
  reasoning :: string
  alternatives :: "string list"

record SchemaDesign =
  main_table :: string
  partitioning :: "string option"
  indexes :: "string list"
  ddl_script :: string

record ETLPipeline =
  steps :: "string list"
  schedule :: string
  estimated_runtime :: string

record Recommendations =
  storage_recommendation :: StorageRecommendation
  schema_design :: SchemaDesign
  etl_pipeline :: ETLPipeline

text \<open>\<open>sep.join(items)\<close> and \<open>str.strip()\<close>\<close>

fun join :: "string \<Rightarrow> string list \<Rightarrow> string" where
  "join sep [] = []"
| "join sep [x] = x"
| "join sep (x # y # ys) = x @ sep @ join sep (y # ys)"

definition is_space :: "char \<Rightarrow> bool" where
  "is_space c =
     (c \<in> set [CHR 0x20, CHR 0x09, CHR 0x0A, CHR 0x0B, CHR 0x0C, CHR 0x0D,
               CHR 0x1C, CHR 0x1D, CHR 0x1E, CHR 0x1F])"

definition strip :: "string \<Rightarrow> string" where
  "strip s = rev (dropWhile is_space (rev (dropWhile is_space s)))"

definition nl :: string where
  "nl = [CHR 0x0A]"

definition clickhouse_ddl :: "string \<Rightarrow> string option \<Rightarrow> string list \<Rightarrow> string" where
  "clickhouse_ddl table part idx =
     nl @ ''CREATE TABLE '' @ table @ nl @
     ''('' @ nl @
     ''    date Date,'' @ nl @
     ''    timestamp DateTime,'' @ nl @
     ''    -- Add your columns here based on source analysis'' @ nl @
     '') ENGINE = MergeTree()'' @ nl @
     (case part of None \<Rightarrow> [] | Some p \<Rightarrow> p) @ nl @
     ''ORDER BY ('' @ (if idx \<noteq> [] then join '', '' idx else ''date'') @ '')'' @ nl"

definition postgresql_ddl :: "string \<Rightarrow> string list \<Rightarrow> string" where
  "postgresql_ddl table idx =
     nl @ ''CREATE TABLE '' @ table @ '' ('' @ nl @
     ''    id SERIAL PRIMARY KEY,'' @ nl @
     ''    created_at TIMESTAMP DEFAULT CURRENT_TIMESTAMP,'' @ nl @
     ''    -- Add your columns here based on source analysis'' @ nl @
     '');'' @ nl @
     (if idx \<noteq> [] then ''CREATE INDEX ON '' @ table @ '' ('' @ join '', '' idx @ '');'' else []) @ nl"

text \<open>\<open>freq_map.get(business_requirements.update_frequency.value, "0 2 * * *")\<close>\<close>

definition freq_map :: "UpdateFrequency \<Rightarrow> string option" where
  "freq_map f =
     (case f of
        ONCE \<Rightarrow> Some ''# Run once manually''
      | HOURLY \<Rightarrow> Some ''0 * * * *''
      | DAILY \<Rightarrow> Some ''0 2 * * *''
      | WEEKLY \<Rightarrow> Some ''0 2 * * 0''
      | REALTIME \<Rightarrow> None)"

definition generate_rule_based_recommendations ::
  "DataSourceConfig list \<Rightarrow> BusinessRequirements \<Rightarrow> patterns_dict \<Rightarrow> Recommendations" where
  "generate_rule_based_recommendations sources business_requirements data_patterns =
     (let total_rows = (case pd_total_estimated_rows data_patterns of None \<Rightarrow> 0 | Some n \<Rightarrow> n);
          has_temporal = (case pd_has_temporal_data data_patterns of None \<Rightarrow> False | Some b \<Rightarrow> b);
          is_analytics = list_ex (\<lambda>metric. metric \<in> set analytics_keywords)
                           (target_metrics business_requirements);
          (storage, reason) =
            (if is_analytics \<and> has_temporal \<and> total_rows > 100000
             then (''clickhouse'', reasoning_analytics)
             else if total_rows > 1000000
                  then (''clickhouse'', reasoning_volume)
                  else (''postgresql'', reasoning_standard));
          part =
            (if has_temporal \<and> storage = ''clickhouse''
             then if total_rows > 1000000
                  then Some ''PARTITION BY toYYYYMM(date)''
                  else Some ''PARTITION BY toYear(date)''
             else None);
          temporal_cols = (case pd_temporal_columns data_patterns of None \<Rightarrow> [] | Some cs \<Rightarrow> cs);
          idx = (if temporal_cols \<noteq> [] then take 2 temporal_cols else []);
          table = (if is_analytics then ''analytics_data'' else ''processed_data'');
          ddl = (if storage = ''clickhouse'' then clickhouse_ddl table part idx
                 else postgresql_ddl table idx);
          sched = (case freq_map (update_frequency business_requirements) of
                     None \<Rightarrow> ''0 2 * * *''
                   | Some s \<Rightarrow> s)
      in \<lparr> storage_recommendation =
             \<lparr> primary = storage,
               reasoning = reason,
               alternatives = (if storage = ''hdfs'' then [''postgresql'', ''clickhouse''] else [''hdfs'']) \<rparr>,
           schema_design =
             \<lparr> main_table = table,
               partitioning = part,
               indexes = idx,
               ddl_script = strip ddl \<rparr>,
           etl_pipeline =
             \<lparr> steps = [''Extract from sources'', ''Join data on common keys'',
                        ''Apply transformations'', ''Load to '' @ storage],
               schedule = sched,
               estimated_runtime = ''10-30 minutes'' \<rparr> \<rparr>)"

text \<open>
  Requirements that name an analytics keyword, and patterns with a temporal signal over
  two million rows.
\<close>

definition analytics_requirements :: BusinessRequirements where
  "analytics_requirements =
     \<lparr> goal = ''sales dashboard'', target_metrics = [''revenue'', kw_analytics],
       update_frequency = REALTIME, expected_load = ''high'', data_retention = ''1 year'' \<rparr>"

definition large_temporal_patterns :: patterns_dict where
  "large_temporal_patterns =
     \<lparr> pd_total_estimated_rows = Some 2000000, pd_has_temporal_data = Some True,
       pd_temporal_columns = Some [''created_at'', ''updated_at'', ''event_date''],
       pd_has_geographical_data = Some True \<rparr>"

subsection \<open>The generative strategy\<close>

text \<open>The API keys and the folder id, read from the environment when the service starts.\<close>

record LLMService =
  yandex_api_key :: "string option"
  yandex_folder_id :: "string option"
  deepseek_api_key :: "string option"

definition yandex_url :: string where
  "yandex_url = ''https://llm.api.cloud.yandex.net/foundationModels/v1/completion''"

definition deepseek_url :: string where
  "deepseek_url = ''https://api.deepseek.com/v1/chat/completions''"

text \<open>\<open>bool(key)\<close> for an optional string, and the text an f-string renders for it.\<close>

definition key_truthy :: "string option \<Rightarrow> bool" where
  "key_truthy key = (case key of None \<Rightarrow> False | Some k \<Rightarrow> k \<noteq> [])"

definition format_str :: "string option \<Rightarrow> string" where
  "format_str v = (case v of None \<Rightarrow> ''None'' | Some s \<Rightarrow> s)"

text \<open>
  \<open>_create_analysis_prompt\<close> renders its three arguments into a text. The text is a
  function of the arguments, and the model keeps the arguments in its place. Rendering
  calls \<open>source.schema_info.get\<close> on every source, which raises \<open>AttributeError\<close> for a
  source whose \<open>schema_info\<close> is \<open>None\<close>.
\<close>

datatype prompt = Prompt "DataSourceConfig list" BusinessRequirements patterns_dict

definition create_analysis_prompt ::
  "DataSourceConfig list \<Rightarrow> BusinessRequirements \<Rightarrow> patterns_dict \<Rightarrow> py_error + prompt" where
  "create_analysis_prompt sources business_requirements data_patterns =
     (if list_ex (\<lambda>source. ds_schema_info source = None) sources
      then Inl AttributeError
      else Inr (Prompt sources business_requirements data_patterns))"

text \<open>
  One HTTP exchange: what is posted (the URL, the \<open>Authorization\<close> header, the model
  name and the prompt; sampling options and the 30 second timeout are constants of the
  call), and what comes back: an exception of the client (a timeout among them), or a
  response with its status code and the outcome of \<open>response.json()\<close>.
\<close>

record http_request =
  req_url :: string
  req_authorization :: string
  req_model :: string
  req_prompt :: prompt

datatype http_outcome = HttpRaises py_error | HttpResponse int "py_error + json"

text \<open>The world outside the service: the HTTP client and \<open>json.loads\<close>.\<close>

record backend =
  http_post :: "http_request \<Rightarrow> http_outcome"
  json_loads :: "string \<Rightarrow> py_error + json"

definition call_yandex_gpt :: "LLMService \<Rightarrow> backend \<Rightarrow> prompt \<Rightarrow> py_error + json" where
  "call_yandex_gpt service be p =
     (case http_post be
             \<lparr> req_url = yandex_url,
               req_authorization = ''Api-Key '' @ format_str (yandex_api_key service),
               req_model = ''gpt://'' @ format_str (yandex_folder_id service) @ ''/yandexgpt-lite'',
               req_prompt = p \<rparr> of
        HttpRaises e \<Rightarrow> Inl e
      | HttpResponse status_code body \<Rightarrow>
          if status_code = 200
          then then_do body (\<lambda>result.
               then_do (getitem_key result ''result'') (\<lambda>r1.
               then_do (getitem_key r1 ''alternatives'') (\<lambda>r2.
               then_do (getitem_index r2 0) (\<lambda>r3.
               then_do (getitem_key r3 ''message'') (\<lambda>r4.
               getitem_key r4 ''text'')))))
          else Inr JNull)"

definition call_deepseek :: "LLMService \<Rightarrow> backend \<Rightarrow> prompt \<Rightarrow> py_error + json" where
  "call_deepseek service be p =
     (case http_post be
             \<lparr> req_url = deepseek_url,
               req_authorization = ''Bearer '' @ format_str (deepseek_api_key service),
               req_model = ''deepseek-chat'',
               req_prompt = p \<rparr> of
        HttpRaises e \<Rightarrow> Inl e
      | HttpResponse status_code body \<Rightarrow>
          if status_code = 200
          then then_do body (\<lambda>result.
               then_do (getitem_key result ''choices'') (\<lambda>r1.
               then_do (getitem_index r1 0) (\<lambda>r2.
               then_do (getitem_key r2 ''message'') (\<lambda>r3.
               getitem_key r3 ''content''))))
          else Inr JNull)"

text \<open>\<open>str.find\<close>, \<open>str.rfind\<close> for a single character, and the slice \<open>s[start:end]\<close> for
  \<open>start \<ge> 0\<close> and \<open>end \<ge> 0\<close>.\<close>

definition str_find :: "string \<Rightarrow> char \<Rightarrow> int" where
  "str_find s c =
     (if c \<in> set s then int (length (takeWhile (\<lambda>x. x \<noteq> c) s)) else - 1)"

definition str_rfind :: "string \<Rightarrow> char \<Rightarrow> int" where
  "str_rfind s c =
     (if c \<in> set s
      then int (length s) - 1 - int (length (takeWhile (\<lambda>x. x \<noteq> c) (rev s)))
      else - 1)"

definition slice :: "string \<Rightarrow> int \<Rightarrow> int \<Rightarrow> string" where
  "slice s start end = take (nat (end - start)) (drop (nat start) s)"

text \<open>
  \<open>_parse_llm_response\<close>. Whatever is raised inside its \<open>try\<close> (no braces found, a
  decoding error, a reply that is not a string and so has no \<open>find\<close>) is caught there, and
  the function returns the empty dictionary.
\<close>

definition parse_llm_response :: "backend \<Rightarrow> json \<Rightarrow> json" where
  "parse_llm_response be response =
     (case (case response of
              JStr text \<Rightarrow>
                let start = str_find text (CHR 0x7B);
                    end = str_rfind text (CHR 0x7D) + 1
                in if start \<noteq> - 1 \<and> end \<noteq> 0
                   then json_loads be (slice text start end)
                   else Inl ValueError
            | _ \<Rightarrow> Inl AttributeError) of
        Inl e \<Rightarrow> JObj []
      | Inr parsed \<Rightarrow> parsed)"

text \<open>The dictionary the rule-based strategy returns, as a JSON object.\<close>

definition as_dict :: "Recommendations \<Rightarrow> json" where
  "as_dict r =
     JObj [(''storage_recommendation'',
            JObj [(''primary'', JStr (primary (storage_recommendation r))),
                  (''reasoning'', JStr (reasoning (storage_recommendation r))),
                  (''alternatives'', JArr (map JStr (alternatives (storage_recommendation r))))]),
           (''schema_design'',
            JObj [(''main_table'', JStr (main_table (schema_design r))),
                  (''partitioning'',
                   (case partitioning (schema_design r) of None \<Rightarrow> JNull | Some p \<Rightarrow> JStr p)),
                  (''indexes'', JArr (map JStr (indexes (schema_design r)))),
                  (''ddl_script'', JStr (ddl_script (schema_design r)))]),
           (''etl_pipeline'',
            JObj [(''steps'', JArr (map JStr (steps (etl_pipeline r)))),
                  (''schedule'', JStr (schedule (etl_pipeline r))),
                  (''estimated_runtime'', JStr (estimated_runtime (etl_pipeline r)))])]"

text \<open>
  The body of the \<open>try\<close> in \<open>generate_recommendations\<close>, up to the point where it either
  returns a parsed reply (\<open>Some\<close>), falls through to the rule-based strategy (\<open>None\<close>),
  or raises.
\<close>

definition try_yandex :: "LLMService \<Rightarrow> backend \<Rightarrow> prompt \<Rightarrow> py_error + json option" where
  "try_yandex service be p =
     (if key_truthy (yandex_api_key service)
      then then_do (call_yandex_gpt service be p) (\<lambda>response.
             if json_truthy response then Inr (Some (parse_llm_response be response))
             else Inr None)
      else Inr None)"

definition try_deepseek :: "LLMService \<Rightarrow> backend \<Rightarrow> prompt \<Rightarrow> py_error + json option" where
  "try_deepseek service be p =
     (if key_truthy (deepseek_api_key service)
      then then_do (call_deepseek service be p) (\<lambda>response.
             if json_truthy response then Inr (Some (parse_llm_response be response))
             else Inr None)
      else Inr None)"

definition generate_recommendations ::
  "LLMService \<Rightarrow> backend \<Rightarrow> DataSourceConfig list \<Rightarrow> BusinessRequirements \<Rightarrow> patterns_dict
     \<Rightarrow> py_error + json" where
  "generate_recommendations service be sources business_requirements data_patterns =
     then_do (create_analysis_prompt sources business_requirements data_patterns) (\<lambda>p.
       let rule_based = as_dict (generate_rule_based_recommendations sources business_requirements data_patterns)
       in case then_do (try_yandex service be p) (\<lambda>first.
                 case first of
                   Some answer \<Rightarrow> Inr (Some answer)
                 | None \<Rightarrow> try_deepseek service be p) of
            Inl e \<Rightarrow> Inr rule_based
          | Inr (Some answer) \<Rightarrow> Inr answer
          | Inr None \<Rightarrow> Inr rule_based)"

text \<open>
  A service with a Yandex key only, and a backend that answers every request with status
  200 and a reply in prose that holds no JSON object.
\<close>

definition yandex_only :: LLMService where
  "yandex_only =
     \<lparr> yandex_api_key = Some ''secret'', yandex_folder_id = Some ''b1g'', deepseek_api_key = None \<rparr>"

definition yandex_reply :: "string \<Rightarrow> json" where
  "yandex_reply text =
     JObj [(''result'',
            JObj [(''alternatives'',
                   JArr [JObj [(''message'', JObj [(''role'', JStr ''assistant''), (''text'', JStr text)])]])])]"

definition prose_backend :: backend where
  "prose_backend =
     \<lparr> http_post = (\<lambda>request. HttpResponse 200 (Inr (yandex_reply ''I cannot recommend a storage.''))),
       json_loads = (\<lambda>text. Inl JSONDecodeError) \<rparr>"

text \<open>A backend whose every request ends in status 500.\<close>

definition failing_backend :: backend where
  "failing_backend =
     \<lparr> http_post = (\<lambda>request. HttpResponse 500 (Inl JSONDecodeError)),
       json_loads = (\<lambda>text. Inl JSONDecodeError) \<rparr>"

section \<open>The schema profiler (services/analyzer.py)\<close>

subsection \<open>Data frames and the readers\<close>

text \<open>
  A pandas \<open>DataFrame\<close>: its columns (label and dtype name, in order) and its rows; a
  cell either holds a value or is missing (\<open>NaN\<close>). \<open>len(df)\<close> is the number of rows.
\<close>

datatype cell = NaN | Val string

record DataFrame =
  df_columns :: "(string \<times> string) list"
  df_rows :: "cell list list"

record SchemaInfo =
  columns :: "string list"
  dtypes :: "string \<rightharpoonup> string"
  sample_data :: "(string \<rightharpoonup> string) list"
  row_count :: int
  null_counts :: "string \<rightharpoonup> int"
  unique_counts :: "string \<rightharpoonup> int"

text \<open>
  What a reader is given: the uploaded stream under \<open>config["file_data"]\<close> or the path
  under \<open>config["file_path"]\<close>.
\<close>

datatype file_ref = FileData string | FilePath string

text \<open>
  The world outside the profiler. \<open>csv_table\<close> and \<open>excel_table\<close> are what pandas parses
  from the whole file (or its failure); the \<open>nrows\<close> argument of the call is applied by
  \<open>nrows\<close> below. \<open>json_load\<close> is \<open>json.load\<close> (with \<open>open\<close> for a path),
  \<open>json_normalize\<close> is \<open>pd.json_normalize\<close>, \<open>create_engine\<close> tells whether
  \<open>sqlalchemy.create_engine\<close> raises for a connection string, and \<open>read_sql\<close> is
  \<open>pd.read_sql\<close> for a query and a connection string.
\<close>

record readers =
  csv_table :: "file_ref \<Rightarrow> string \<Rightarrow> string \<Rightarrow> py_error + DataFrame"
  excel_table :: "file_ref \<Rightarrow> py_error + DataFrame"
  json_load :: "file_ref \<Rightarrow> py_error + json"
  json_normalize :: "json list \<Rightarrow> py_error + DataFrame"
  create_engine :: "string \<Rightarrow> py_error option"
  read_sql :: "string \<Rightarrow> string \<Rightarrow> py_error + DataFrame"

definition nrows :: "nat \<Rightarrow> DataFrame \<Rightarrow> DataFrame" where
  "nrows n df = df\<lparr> df_rows := take n (df_rows df) \<rparr>"

text \<open>\<open>config.get(key, default)\<close>\<close>

definition config_get :: "(string \<rightharpoonup> string) \<Rightarrow> string \<Rightarrow> string \<Rightarrow> string" where
  "config_get config key dflt = (case config key of None \<Rightarrow> dflt | Some v \<Rightarrow> v)"

subsection \<open>\<open>_create_schema_info\<close>\<close>

definition column_cells :: "DataFrame \<Rightarrow> nat \<Rightarrow> cell list" where
  "column_cells df j = map (\<lambda>row. if j < length row then row ! j else NaN) (df_rows df)"

text \<open>\<open>df[col].isnull().sum()\<close> and \<open>df[col].nunique()\<close> for the column at position \<open>j\<close>.\<close>

definition isnull_sum :: "DataFrame \<Rightarrow> nat \<Rightarrow> int" where
  "isnull_sum df j = int (length (filter (\<lambda>c. c = NaN) (column_cells df j)))"

definition nunique :: "DataFrame \<Rightarrow> nat \<Rightarrow> int" where
  "nunique df j = int (length (remdups (filter (\<lambda>c. c \<noteq> NaN) (column_cells df j))))"

text \<open>\<open>df.fillna("")\<close> on one cell, and one record of \<open>to_dict('records')\<close>.\<close>

definition fillna :: "cell \<Rightarrow> string" where
  "fillna c = (case c of NaN \<Rightarrow> [] | Val v \<Rightarrow> v)"

definition to_record :: "string list \<Rightarrow> cell list \<Rightarrow> (string \<rightharpoonup> string)" where
  "to_record labels row = map_of (zip labels (map fillna row))"

text \<open>
  With a label that occurs twice, \<open>df[col]\<close> is a frame, its \<open>isnull().sum()\<close> is a
  series, and \<open>int\<close> of that series raises \<open>TypeError\<close>.
\<close>

definition create_schema_info :: "DataFrame \<Rightarrow> py_error + SchemaInfo" where
  "create_schema_info df =
     (let labels = map fst (df_columns df)
      in if distinct labels
         then Inr \<lparr> columns = labels,
                    dtypes = map_of (df_columns df),
                    sample_data = map (to_record labels) (take 5 (df_rows df)),
                    row_count = int (length (df_rows df)),
                    null_counts = map_of (map (\<lambda>j. (labels ! j, isnull_sum df j)) [0..<length labels]),
                    unique_counts = map_of (map (\<lambda>j. (labels ! j, nunique df j)) [0..<length labels]) \<rparr>
         else Inl TypeError)"

definition empty_schema_info :: SchemaInfo where
  "empty_schema_info =
     \<lparr> columns = [], dtypes = Map.empty, sample_data = [], row_count = 0,
       null_counts = Map.empty, unique_counts = Map.empty \<rparr>"

subsection \<open>The four readers\<close>

definition analyze_csv :: "readers \<Rightarrow> (string \<rightharpoonup> string) \<Rightarrow> py_error + SchemaInfo" where
  "analyze_csv w config =
     (case config ''file_data'' of
        Some file_data \<Rightarrow>
          then_do (csv_table w (FileData file_data)
                     (config_get config ''delimiter'' '','') (config_get config ''encoding'' ''utf-8''))
            (\<lambda>df. create_schema_info (nrows 1000 df))
      | None \<Rightarrow>
          (case config ''file_path'' of
             None \<Rightarrow> Inl KeyError
           | Some file_path \<Rightarrow>
               then_do (csv_table w (FilePath file_path)
                          (config_get config ''delimiter'' '','') (config_get config ''encoding'' ''utf-8''))
                 (\<lambda>df. create_schema_info (nrows 1000 df))))"

text \<open>
  \<open>_analyze_postgresql\<close>, with the calls it makes on the engine recorded in order. The
  f-string reads the configuration keys from left to right.
\<close>

datatype engine_event = CreateEngine string | ReadSql string | Dispose

definition analyze_postgresql_traced ::
  "readers \<Rightarrow> (string \<rightharpoonup> string) \<Rightarrow> engine_event list \<times> (py_error + SchemaInfo)" where
  "analyze_postgresql_traced w config =
     (case (config ''username'', config ''password'', config ''host'', config ''database'') of
        (Some username, Some password, Some host, Some database) \<Rightarrow>
          let connection_string =
                ''postgresql://'' @ username @ '':'' @ password @ ''@'' @ host @ '':'' @
                config_get config ''port'' ''5432'' @ ''/'' @ database
          in (case create_engine w connection_string of
                Some e \<Rightarrow> ([], Inl e)
              | None \<Rightarrow>
                  (case config ''table'' of
                     None \<Rightarrow> ([CreateEngine connection_string], Inl KeyError)
                   | Some table \<Rightarrow>
                       let query = ''SELECT * FROM '' @ table @ '' LIMIT 1000''
                       in (case read_sql w query connection_string of
                             Inl e \<Rightarrow> ([CreateEngine connection_string, ReadSql query], Inl e)
                           | Inr df \<Rightarrow>
                               ([CreateEngine connection_string, ReadSql query, Dispose],
                                create_schema_info df))))
      | _ \<Rightarrow> ([], Inl KeyError))"

definition analyze_postgresql :: "readers \<Rightarrow> (string \<rightharpoonup> string) \<Rightarrow> py_error + SchemaInfo" where
  "analyze_postgresql w config = snd (analyze_postgresql_traced w config)"

definition analyze_json :: "readers \<Rightarrow> (string \<rightharpoonup> string) \<Rightarrow> py_error + SchemaInfo" where
  "analyze_json w config =
     then_do (case config ''file_data'' of
                Some file_data \<Rightarrow> json_load w (FileData file_data)
              | None \<Rightarrow>
                  (case config ''file_path'' of
                     None \<Rightarrow> Inl KeyError
                   | Some file_path \<Rightarrow> json_load w (FilePath file_path)))
       (\<lambda>data.
          then_do (case data of
                     JArr items \<Rightarrow> json_normalize w items
                   | _ \<Rightarrow> json_normalize w [data])
            create_schema_info)"

definition analyze_excel :: "readers \<Rightarrow> (string \<rightharpoonup> string) \<Rightarrow> py_error + SchemaInfo" where
  "analyze_excel w config =
     (case config ''file_data'' of
        Some file_data \<Rightarrow>
          then_do (excel_table w (FileData file_data)) (\<lambda>df. create_schema_info (nrows 1000 df))
      | None \<Rightarrow>
          (case config ''file_path'' of
             None \<Rightarrow> Inl KeyError
           | Some file_path \<Rightarrow>
               then_do (excel_table w (FilePath file_path)) (\<lambda>df. create_schema_info (nrows 1000 df))))"

subsection \<open>\<open>analyze_source\<close>\<close>

definition supported_types :: "SourceType list" where
  "supported_types = [CSV, POSTGRESQL, JSON, EXCEL]"

text \<open>The body of the \<open>try\<close>: the dispatch on the source type.\<close>

definition analyze_by_type :: "readers \<Rightarrow> DataSourceConfig \<Rightarrow> py_error + SchemaInfo" where
  "analyze_by_type w source =
     (case ds_type source of
        CSV \<Rightarrow> analyze_csv w (ds_config source)
      | POSTGRESQL \<Rightarrow> analyze_postgresql w (ds_config source)
      | JSON \<Rightarrow> analyze_json w (ds_config source)
      | EXCEL \<Rightarrow> analyze_excel w (ds_config source)
      | _ \<Rightarrow> Inl ValueError)"

text \<open>
  \<open>analyze_source\<close>: the \<open>except Exception\<close> clause turns everything raised in the body,
  the \<open>ValueError\<close> for an unsupported type included, into the empty \<open>SchemaInfo\<close>. \<open>Inl\<close>
  would be an exception that reaches the caller.
\<close>

definition analyze_source :: "readers \<Rightarrow> DataSourceConfig \<Rightarrow> py_error + SchemaInfo" where
  "analyze_source w source =
     (case analyze_by_type w source of
        Inl e \<Rightarrow> Inr empty_schema_info
      | Inr info \<Rightarrow> Inr info)"

subsection \<open>Example world\<close>

text \<open>
  A stand-in for \<open>pd.json_normalize\<close> on flat objects: one row per element of the list,
  the columns being the keys of the first element.
\<close>

definition flat_normalize :: "json list \<Rightarrow> py_error + DataFrame" where
  "flat_normalize items =
     Inr \<lparr> df_columns =
             (case items of
                JObj kvs # _ \<Rightarrow> map (\<lambda>kv. (fst kv, ''object'')) kvs
              | _ \<Rightarrow> []),
           df_rows =
             map (\<lambda>item. case item of
                            JObj kvs \<Rightarrow> map (\<lambda>kv. case snd kv of JStr s \<Rightarrow> Val s | _ \<Rightarrow> NaN) kvs
                          | _ \<Rightarrow> [])
               items \<rparr>"

definition people_frame :: DataFrame where
  "people_frame =
     \<lparr> df_columns = [(''id'', ''int64''), (''name'', ''object'')],
       df_rows = [[Val ''1'', Val ''ann''], [Val ''2'', NaN], [Val ''3'', Val ''bob''],
                  [Val ''4'', Val ''ann''], [Val ''5'', Val ''eve''], [Val ''6'', NaN],
                  [Val ''7'', Val ''joe'']] \<rparr>"

text \<open>
  A world with one CSV file of seven rows, one JSON document that is a list of 1001 flat
  objects, and a database whose queries fail.
\<close>

definition demo_readers :: readers where
  "demo_readers =
     \<lparr> csv_table = (\<lambda>file delimiter encoding.
                       if file = FilePath ''people.csv'' then Inr people_frame else Inl OSError),
       excel_table = (\<lambda>file. Inl OSError),
       json_load = (\<lambda>file. if file = FilePath ''events.json''
                             then Inr (JArr (replicate 1001 (JObj [(''event'', JStr ''click'')])))
                             else Inl OSError),
       json_normalize = flat_normalize,
       create_engine = (\<lambda>connection_string. None),
       read_sql = (\<lambda>query connection_string. Inl DatabaseError) \<rparr>"

definition people_csv :: DataSourceConfig where
  "people_csv =
     \<lparr> ds_id = ''people'', ds_name = ''people'', ds_type = CSV,
       ds_config = [''file_path'' \<mapsto> ''people.csv''], ds_schema_info = None \<rparr>"

definition missing_csv :: DataSourceConfig where
  "missing_csv =
     \<lparr> ds_id = ''missing'', ds_name = ''missing'', ds_type = CSV,
       ds_config = [''file_path'' \<mapsto> ''absent.csv''], ds_schema_info = None \<rparr>"

definition clickhouse_source :: DataSourceConfig where
  "clickhouse_source =
     \<lparr> ds_id = ''ch'', ds_name = ''warehouse'', ds_type = CLICKHOUSE,
       ds_config = Map.empty, ds_schema_info = None \<rparr>"

definition events_json :: DataSourceConfig where
  "events_json =
     \<lparr> ds_id = ''events'', ds_name = ''events'', ds_type = JSON,
       ds_config = [''file_path'' \<mapsto> ''events.json''], ds_schema_info = None \<rparr>"

definition orders_table :: "string \<rightharpoonup> string" where
  "orders_table =
     [''username'' \<mapsto> ''etl'', ''password'' \<mapsto> ''pw'', ''host'' \<mapsto> ''db'',
      ''database'' \<mapsto> ''shop'', ''table'' \<mapsto> ''orders'']"

section \<open>Properties\<close>

subsection \<open>Strings\<close>

lemma startswith_iff: "startswith s p \<longleftrightarrow> (\<exists>b. s = p @ b)"
  by (induction s p rule: startswith.induct) auto

lemma substring_in_iff: "substring_in p s \<longleftrightarrow> (\<exists>a b. s = a @ p @ b)"
proof (induction s)
  case Nil
  then show ?case by auto
next
  case (Cons c cs)
  show ?case
  proof
    assume "substring_in p (c # cs)"
    then show "\<exists>a b. c # cs = a @ p @ b"
      using Cons.IH by (auto simp: startswith_iff intro: exI[of _ "[]"] ) (metis append_Cons)
  next
    assume "\<exists>a b. c # cs = a @ p @ b"
    then obtain a b where ab: "c # cs = a @ p @ b" by blast
    show "substring_in p (c # cs)"
    proof (cases a)
      case Nil
      then have "startswith (c # cs) p" using ab by (simp add: startswith_iff)
      then show ?thesis by simp
    next
      case (Cons x a')
      then have "cs = a' @ p @ b" using ab by simp
      then show ?thesis using Cons.IH by auto
    qed
  qed
qed

subsection \<open>Join key selection\<close>


















text \<open>
  Two columns whose quotients round to the same floating-point number have equal scores,
  and the strict comparison of the loop keeps the first of them.
\<close>

lemma identify_primary_key_equal_scores:
  assumes "by_priority priority_patterns [p, q] = None"
    and "ds_schema_info source1 = Some info1" and "dict_truthy info1"
    and "ds_schema_info source2 = Some info2" and "dict_truthy info2"
    and "uniqueness truediv info1 info2 q = uniqueness truediv info1 info2 p"
    and "0 < uniqueness truediv info1 info2 p"
  shows "identify_primary_key truediv [p, q] source1 source2 = Some p"
  using assms by (simp add: identify_primary_key_def)

text \<open>
  A column name written with KELVIN SIGN lowers to a name that contains \<open>key\<close>, and is
  selected by that pattern.
\<close>

lemma lower_kelvin_sign: "lower ([CHR 0xE2, CHR 0x84, CHR 0xAA] @ ''EY'') = ''key''"
  by (simp add: lower_char_def)

lemma identify_primary_key_kelvin_sign:
  "identify_primary_key truediv [''name'', [CHR 0xE2, CHR 0x84, CHR 0xAA] @ ''ey''] source1 source2 =
     Some ([CHR 0xE2, CHR 0x84, CHR 0xAA] @ ''ey'')"
  by (simp add: identify_primary_key_def priority_patterns_def lower_char_def)

subsection \<open>Relationship detection\<close>

lemma set_index_pairs: "(i, j) \<in> set (index_pairs n) \<longleftrightarrow> i < j \<and> j < n"
  by (fastforce simp: index_pairs_def)





















subsection \<open>Pattern classification\<close>

lemma any_keyword_in_iff:
  "any_keyword_in keywords s \<longleftrightarrow> (\<exists>k\<in>set keywords. \<exists>a b. s = a @ k @ b)"
  by (simp add: any_keyword_in_def list_ex_iff substring_in_iff)

lemma scan_temporal_closed:
  "scan_temporal cols p =
     p\<lparr> has_temporal_data := has_temporal_data p \<or> list_ex (\<lambda>c. any_keyword_in temporal_keywords (lower c)) cols,
        temporal_columns := temporal_columns p @ filter (\<lambda>c. any_keyword_in temporal_keywords (lower c)) cols \<rparr>"
  by (induction cols arbitrary: p) (simp_all add: Let_def)

lemma scan_geographical_closed:
  "scan_geographical cols p =
     p\<lparr> has_geographical_data := has_geographical_data p \<or> list_ex (\<lambda>c. any_keyword_in geo_keywords (lower c)) cols,
        geographical_columns := geographical_columns p @ filter (\<lambda>c. any_keyword_in geo_keywords (lower c)) cols \<rparr>"
  by (induction cols arbitrary: p) (simp_all add: Let_def)

lemma not_truthy_profiled:
  "ds_schema_info s = Some info \<Longrightarrow> \<not> dict_truthy info \<Longrightarrow> profiled_columns s = [] \<and> profiled_rows s = 0"
  by (simp add: profiled_columns_def profiled_rows_def dict_truthy_def get_columns_def get_row_count_def)

lemma scan_sources_closed:
  "scan_sources sources (p, rows0, allc) =
     (p\<lparr> has_temporal_data := has_temporal_data p \<or>
            list_ex (\<lambda>c. any_keyword_in temporal_keywords (lower c)) (concat (map profiled_columns sources)),
         temporal_columns := temporal_columns p @
            filter (\<lambda>c. any_keyword_in temporal_keywords (lower c)) (concat (map profiled_columns sources)),
         has_geographical_data := has_geographical_data p \<or>
            list_ex (\<lambda>c. any_keyword_in geo_keywords (lower c)) (concat (map profiled_columns sources)),
         geographical_columns := geographical_columns p @
            filter (\<lambda>c. any_keyword_in geo_keywords (lower c)) (concat (map profiled_columns sources)) \<rparr>,
      rows0 + sum_list (map profiled_rows sources),
      allc @ concat (map profiled_columns sources))"
proof (induction sources arbitrary: p rows0 allc)
  case Nil
  then show ?case by simp
next
  case (Cons s sources)
  show ?case
  proof (cases "ds_schema_info s")
    case None
    then show ?thesis using Cons
      by (simp add: profiled_columns_def profiled_rows_def)
  next
    case (Some info)
    show ?thesis
    proof (cases "dict_truthy info")
      case True
      have pc: "profiled_columns s = get_columns info" "profiled_rows s = get_row_count info 0"
        using Some by (simp_all add: profiled_columns_def profiled_rows_def)
      show ?thesis
        using Some True
        by (simp add: Cons pc scan_temporal_closed scan_geographical_closed Let_def
            disj_assoc algebra_simps)
    next
      case False
      from not_truthy_profiled[OF Some False] show ?thesis
        using Some False by (simp add: Cons)
    qed
  qed
qed


lemma analyze_data_patterns_closed:
  "analyze_data_patterns sources =
     (let cols = concat (map profiled_columns sources);
          total_rows = sum_list (map profiled_rows sources);
          temporal = list_ex (\<lambda>c. any_keyword_in temporal_keywords (lower c)) cols
      in \<lparr> has_temporal_data = temporal,
           temporal_columns = filter (\<lambda>c. any_keyword_in temporal_keywords (lower c)) cols,
           has_geographical_data = list_ex (\<lambda>c. any_keyword_in geo_keywords (lower c)) cols,
           geographical_columns = filter (\<lambda>c. any_keyword_in geo_keywords (lower c)) cols,
           total_estimated_rows = total_rows,
           data_types_distribution = [],
           suggested_partitioning =
             (if temporal \<and> total_rows > 1000000 then Some ''monthly''
              else if temporal \<and> total_rows > 100000 then Some ''yearly'' else None) \<rparr>)"
  by (simp add: analyze_data_patterns_def scan_sources_closed initial_patterns_def Let_def)

text \<open>
  C8. For every list of sources, \<open>analyze_data_patterns\<close> lists as temporal columns
  exactly the columns of the profiled sources, in order and with repetitions, whose
  lowercase name contains one of \<open>date, time, created, updated, timestamp\<close>, and sets
  the temporal flag exactly when there is such a column; the same holds for the
  geographic keywords. The total estimated rows are the sum of the sources' row counts.
  The partition suggestion is \<open>monthly\<close> iff the temporal flag is set and the total
  exceeds 1,000,000, \<open>yearly\<close> iff the flag is set and the total lies in
  (100,000, 1,000,000], and absent otherwise.
\<close>

theorem analyze_data_patterns_characterisation:
  "temporal_columns (analyze_data_patterns sources) =
     filter (\<lambda>c. \<exists>k\<in>set temporal_keywords. \<exists>a b. lower c = a @ k @ b)
       (concat (map profiled_columns sources))
   \<and> has_temporal_data (analyze_data_patterns sources) =
     (\<exists>c\<in>set (concat (map profiled_columns sources)).
        \<exists>k\<in>set temporal_keywords. \<exists>a b. lower c = a @ k @ b)
   \<and> geographical_columns (analyze_data_patterns sources) =
     filter (\<lambda>c. \<exists>k\<in>set geo_keywords. \<exists>a b. lower c = a @ k @ b)
       (concat (map profiled_columns sources))
   \<and> has_geographical_data (analyze_data_patterns sources) =
     (\<exists>c\<in>set (concat (map profiled_columns sources)).
        \<exists>k\<in>set geo_keywords. \<exists>a b. lower c = a @ k @ b)
   \<and> total_estimated_rows (analyze_data_patterns sources) = sum_list (map profiled_rows sources)
   \<and> (suggested_partitioning (analyze_data_patterns sources) = Some ''monthly'' \<longleftrightarrow>
        has_temporal_data (analyze_data_patterns sources) \<and>
        total_estimated_rows (analyze_data_patterns sources) > 1000000)
   \<and> (suggested_partitioning (analyze_data_patterns sources) = Some ''yearly'' \<longleftrightarrow>
        has_temporal_data (analyze_data_patterns sources) \<and>
        100000 < total_estimated_rows (analyze_data_patterns sources) \<and>
        total_estimated_rows (analyze_data_patterns sources) \<le> 1000000)
   \<and> (suggested_partitioning (analyze_data_patterns sources) = None \<longleftrightarrow>
        \<not> (has_temporal_data (analyze_data_patterns sources) \<and>
           total_estimated_rows (analyze_data_patterns sources) > 100000))"
  unfolding any_keyword_in_iff[symmetric] analyze_data_patterns_closed Let_def
  by (auto simp: list_ex_iff)

lemma demo_columns:
  "concat (map profiled_columns [orders, customers, unprofiled]) =
     [''order_id'', ''customer_id'', ''amount'', ''created_at'', ''customer_id'', ''name'', ''country'']"
  by (simp add: profiled_columns_def orders_def customers_def unprofiled_def get_columns_def)

lemma demo_rows: "sum_list (map profiled_rows [orders, customers, unprofiled]) = 510000"
  by (simp add: profiled_rows_def orders_def customers_def unprofiled_def get_row_count_def)

lemma demo_temporal:
  "filter (\<lambda>c. any_keyword_in temporal_keywords (lower c))
     [''order_id'', ''customer_id'', ''amount'', ''created_at'', ''customer_id'', ''name'', ''country'']
   = [''created_at'']"
  by (simp add: any_keyword_in_def temporal_keywords_def lower_char_def)

lemma demo_geographical:
  "filter (\<lambda>c. any_keyword_in geo_keywords (lower c))
     [''order_id'', ''customer_id'', ''amount'', ''created_at'', ''customer_id'', ''name'', ''country'']
   = [''country'']"
  by (simp add: any_keyword_in_def geo_keywords_def lower_char_def)

theorem analyze_data_patterns_characterisation_witness:
  "temporal_columns (analyze_data_patterns [orders, customers, unprofiled]) = [''created_at'']
   \<and> has_temporal_data (analyze_data_patterns [orders, customers, unprofiled])
   \<and> geographical_columns (analyze_data_patterns [orders, customers, unprofiled]) = [''country'']
   \<and> has_geographical_data (analyze_data_patterns [orders, customers, unprofiled])
   \<and> total_estimated_rows (analyze_data_patterns [orders, customers, unprofiled]) = 510000
   \<and> suggested_partitioning (analyze_data_patterns [orders, customers, unprofiled]) = Some ''yearly''"
proof -
  let ?p = "analyze_data_patterns [orders, customers, unprofiled]"
  note T = analyze_data_patterns_characterisation[of "[orders, customers, unprofiled]",
      unfolded any_keyword_in_iff[symmetric] demo_columns demo_rows]
  have tc: "temporal_columns ?p = [''created_at'']"
    using T demo_temporal by simp
  have ht: "has_temporal_data ?p"
  proof -
    have "has_temporal_data ?p = (\<exists>c\<in>set [''order_id'', ''customer_id'', ''amount'', ''created_at'', ''customer_id'', ''name'', ''country'']. any_keyword_in temporal_keywords (lower c))"
      using T by blast
    also have "\<dots> = (filter (\<lambda>c. any_keyword_in temporal_keywords (lower c))
         [''order_id'', ''customer_id'', ''amount'', ''created_at'', ''customer_id'', ''name'', ''country''] \<noteq> [])"
      by (simp only: filter_empty_conv) blast
    finally show ?thesis by (simp only: demo_temporal) simp
  qed
  have gc: "geographical_columns ?p = [''country'']"
    using T demo_geographical by simp
  have hg: "has_geographical_data ?p"
  proof -
    have "has_geographical_data ?p = (\<exists>c\<in>set [''order_id'', ''customer_id'', ''amount'', ''created_at'', ''customer_id'', ''name'', ''country'']. any_keyword_in geo_keywords (lower c))"
      using T by blast
    also have "\<dots> = (filter (\<lambda>c. any_keyword_in geo_keywords (lower c))
         [''order_id'', ''customer_id'', ''amount'', ''created_at'', ''customer_id'', ''name'', ''country''] \<noteq> [])"
      by (simp only: filter_empty_conv) blast
    finally show ?thesis by (simp only: demo_geographical) simp
  qed
  have tr: "total_estimated_rows ?p = 510000" using T by blast
  have "suggested_partitioning ?p = Some ''yearly'' \<longleftrightarrow>
        has_temporal_data ?p \<and> 100000 < total_estimated_rows ?p \<and> total_estimated_rows ?p \<le> 1000000"
    using T by blast
  then have sp: "suggested_partitioning ?p = Some ''yearly''"
    using ht tr by simp
  show ?thesis using tc ht gc hg tr sp by blast
qed

subsection \<open>The rule-based strategy\<close>

lemma list_ex_analytics:
  "list_ex (\<lambda>metric. metric \<in> set analytics_keywords) metrics \<longleftrightarrow>
   set metrics \<inter> set analytics_keywords \<noteq> {}"
  by (auto simp: list_ex_iff)

lemma rule_based_primary:
  "primary (storage_recommendation (generate_rule_based_recommendations sources br dp)) =
     (if list_ex (\<lambda>metric. metric \<in> set analytics_keywords) (target_metrics br) \<and>
         (case pd_has_temporal_data dp of None \<Rightarrow> False | Some b \<Rightarrow> b) \<and>
         (case pd_total_estimated_rows dp of None \<Rightarrow> 0 | Some n \<Rightarrow> n) > 100000
      then ''clickhouse''
      else if (case pd_total_estimated_rows dp of None \<Rightarrow> 0 | Some n \<Rightarrow> n) > 1000000
           then ''clickhouse'' else ''postgresql'')"
  by (simp add: generate_rule_based_recommendations_def Let_def)

lemma rule_based_partitioning:
  "partitioning (schema_design (generate_rule_based_recommendations sources br dp)) =
     (if (case pd_has_temporal_data dp of None \<Rightarrow> False | Some b \<Rightarrow> b) \<and>
         primary (storage_recommendation (generate_rule_based_recommendations sources br dp)) = ''clickhouse''
      then if (case pd_total_estimated_rows dp of None \<Rightarrow> 0 | Some n \<Rightarrow> n) > 1000000
           then Some ''PARTITION BY toYYYYMM(date)''
           else Some ''PARTITION BY toYear(date)''
      else None)"
  by (simp add: generate_rule_based_recommendations_def Let_def)

lemma rule_based_alternatives:
  "alternatives (storage_recommendation (generate_rule_based_recommendations sources br dp)) =
     (if primary (storage_recommendation (generate_rule_based_recommendations sources br dp)) = ''hdfs''
      then [''postgresql'', ''clickhouse''] else [''hdfs''])"
  by (simp add: generate_rule_based_recommendations_def Let_def)

text \<open>
  C7. The rule-based recommender picks \<open>clickhouse\<close> when the target metrics intersect
  the analytics keywords and the temporal signal is true and the total rows exceed 100,000;
  otherwise \<open>clickhouse\<close> when the total rows exceed 1,000,000; otherwise
  \<open>postgresql\<close>. It emits a partition expression exactly when the temporal signal is true
  and the storage is \<open>clickhouse\<close>: the monthly expression if the total rows exceed
  1,000,000, else the yearly one. A missing key of the patterns dictionary reads as
  0 rows and no temporal signal.
\<close>

theorem rule_based_storage_and_partition:
  "(let total_rows = (case pd_total_estimated_rows dp of None \<Rightarrow> 0 | Some n \<Rightarrow> n);
        temporal = (pd_has_temporal_data dp = Some True);
        analytics = (set (target_metrics br) \<inter> set analytics_keywords \<noteq> {});
        r = generate_rule_based_recommendations sources br dp
    in primary (storage_recommendation r) =
         (if analytics \<and> temporal \<and> total_rows > 100000 then ''clickhouse''
          else if total_rows > 1000000 then ''clickhouse''
          else ''postgresql'')
       \<and> (partitioning (schema_design r) \<noteq> None \<longleftrightarrow>
            temporal \<and> primary (storage_recommendation r) = ''clickhouse'')
       \<and> (partitioning (schema_design r) \<noteq> None \<longrightarrow>
            partitioning (schema_design r) =
              (if total_rows > 1000000 then Some ''PARTITION BY toYYYYMM(date)''
               else Some ''PARTITION BY toYear(date)'')))"
proof -
  have t: "(case pd_has_temporal_data dp of None \<Rightarrow> False | Some b \<Rightarrow> b) = (pd_has_temporal_data dp = Some True)"
    by (cases "pd_has_temporal_data dp") auto
  show ?thesis
    unfolding Let_def rule_based_partitioning
    unfolding rule_based_primary list_ex_analytics t
    by simp
qed

theorem rule_based_storage_and_partition_witness:
  "primary (storage_recommendation
      (generate_rule_based_recommendations [orders, customers] analytics_requirements large_temporal_patterns))
     = ''clickhouse''
   \<and> partitioning (schema_design
      (generate_rule_based_recommendations [orders, customers] analytics_requirements large_temporal_patterns))
     = Some ''PARTITION BY toYYYYMM(date)''"
proof -
  have a: "set (target_metrics analytics_requirements) \<inter> set analytics_keywords \<noteq> {}"
    by (simp add: analytics_requirements_def analytics_keywords_def)
  have b: "pd_has_temporal_data large_temporal_patterns = Some True"
    "pd_total_estimated_rows large_temporal_patterns = Some 2000000"
    by (simp_all add: large_temporal_patterns_def)
  from rule_based_storage_and_partition[of large_temporal_patterns analytics_requirements "[orders, customers]"]
  show ?thesis
    unfolding Let_def using a b by simp
qed

text \<open>
  C10. For every input, the rule-based strategy selects \<open>clickhouse\<close> or
  \<open>postgresql\<close> as the primary storage, never \<open>hdfs\<close>, and its alternatives are
  exactly the one-element list \<open>["hdfs"]\<close>.
\<close>

theorem rule_based_never_hdfs:
  "primary (storage_recommendation (generate_rule_based_recommendations sources br dp))
     \<in> {''clickhouse'', ''postgresql''}
   \<and> primary (storage_recommendation (generate_rule_based_recommendations sources br dp)) \<noteq> ''hdfs''
   \<and> alternatives (storage_recommendation (generate_rule_based_recommendations sources br dp)) = [''hdfs'']"
  unfolding rule_based_alternatives unfolding rule_based_primary by simp

theorem rule_based_never_hdfs_witness:
  "primary (storage_recommendation
      (generate_rule_based_recommendations [orders, customers] analytics_requirements large_temporal_patterns))
     \<noteq> ''hdfs''
   \<and> alternatives (storage_recommendation
      (generate_rule_based_recommendations [orders, customers] analytics_requirements large_temporal_patterns))
     = [''hdfs'']"
  using rule_based_never_hdfs[of "[orders, customers]" analytics_requirements large_temporal_patterns]
  by blast

subsection \<open>The fallback chain of \<open>generate_recommendations\<close>\<close>

text \<open>
  When every request to the backend raises or ends in a status other than 200, and every
  source carries a schema, the result is the rule-based one.
\<close>

lemma call_fails:
  assumes "\<And>request. case http_post be request of
                        HttpRaises e \<Rightarrow> True
                      | HttpResponse status_code body \<Rightarrow> status_code \<noteq> 200"
  shows "call_yandex_gpt service be p = Inr JNull \<or> (\<exists>e. call_yandex_gpt service be p = Inl e)"
    and "call_deepseek service be p = Inr JNull \<or> (\<exists>e. call_deepseek service be p = Inl e)"
proof -
  let ?y = "\<lparr> req_url = yandex_url,
               req_authorization = ''Api-Key '' @ format_str (yandex_api_key service),
               req_model = ''gpt://'' @ format_str (yandex_folder_id service) @ ''/yandexgpt-lite'',
               req_prompt = p \<rparr>"
  let ?d = "\<lparr> req_url = deepseek_url,
               req_authorization = ''Bearer '' @ format_str (deepseek_api_key service),
               req_model = ''deepseek-chat'',
               req_prompt = p \<rparr>"
  show "call_yandex_gpt service be p = Inr JNull \<or> (\<exists>e. call_yandex_gpt service be p = Inl e)"
    using assms[of ?y] by (cases "http_post be ?y") (simp_all add: call_yandex_gpt_def)
  show "call_deepseek service be p = Inr JNull \<or> (\<exists>e. call_deepseek service be p = Inl e)"
    using assms[of ?d] by (cases "http_post be ?d") (simp_all add: call_deepseek_def)
qed

lemma try_fails:
  assumes "\<And>request. case http_post be request of
                        HttpRaises e \<Rightarrow> True
                      | HttpResponse status_code body \<Rightarrow> status_code \<noteq> 200"
  shows "try_yandex service be p = Inr None \<or> (\<exists>e. try_yandex service be p = Inl e)"
    and "try_deepseek service be p = Inr None \<or> (\<exists>e. try_deepseek service be p = Inl e)"
  using call_fails(1)[OF assms, of service p] call_fails(2)[OF assms, of service p]
  by (auto simp: try_yandex_def try_deepseek_def then_do_def json_truthy_def)

lemma generate_recommendations_fallback:
  assumes "\<And>request. case http_post be request of
                        HttpRaises e \<Rightarrow> True
                      | HttpResponse status_code body \<Rightarrow> status_code \<noteq> 200"
    and "\<not> list_ex (\<lambda>source. ds_schema_info source = None) sources"
  shows "generate_recommendations service be sources br dp =
         Inr (as_dict (generate_rule_based_recommendations sources br dp))"
proof -
  let ?p = "Prompt sources br dp"
  have c: "create_analysis_prompt sources br dp = Inr ?p"
    using assms(2) by (simp add: create_analysis_prompt_def)
  from try_fails(1)[OF assms(1), of service ?p] try_fails(2)[OF assms(1), of service ?p]
  show ?thesis
    unfolding generate_recommendations_def c
    by (auto simp: then_do_def Let_def)
qed

lemma generate_recommendations_status_500:
  "generate_recommendations yandex_only failing_backend [orders, customers]
     analytics_requirements large_temporal_patterns =
   Inr (as_dict (generate_rule_based_recommendations [orders, customers]
                   analytics_requirements large_temporal_patterns))"
proof (rule generate_recommendations_fallback)
  show "case http_post failing_backend request of
          HttpRaises e \<Rightarrow> True
        | HttpResponse status_code body \<Rightarrow> status_code \<noteq> 200" for request
    by (simp add: failing_backend_def)
  show "\<not> list_ex (\<lambda>source. ds_schema_info source = None) [orders, customers]"
    by (simp add: orders_def customers_def)
qed

lemma prose_reply:
  "call_yandex_gpt yandex_only prose_backend p = Inr (JStr ''I cannot recommend a storage.'')"
  by (simp add: call_yandex_gpt_def prose_backend_def yandex_reply_def then_do_def
      getitem_key_def getitem_index_def)

lemma parse_prose: "parse_llm_response be (JStr ''I cannot recommend a storage.'') = JObj []"
  by (simp add: parse_llm_response_def str_find_def str_rfind_def)

lemma sources_profiled: "create_analysis_prompt [orders, customers] br dp = Inr (Prompt [orders, customers] br dp)"
  by (simp add: create_analysis_prompt_def orders_def customers_def)

lemma try_yandex_prose: "try_yandex yandex_only prose_backend p = Inr (Some (JObj []))"
proof -
  have k: "key_truthy (yandex_api_key yandex_only)"
    by (simp add: key_truthy_def yandex_only_def)
  show ?thesis
    unfolding try_yandex_def prose_reply
    using k by (simp add: then_do_def json_truthy_def parse_prose)
qed

text \<open>
  C1 says that a reply from which no JSON object is recoverable makes
  \<open>generate_recommendations\<close> return the result of the rule-based strategy. The code
  does not: with a Yandex key configured and a reply of status 200 whose text is prose
  without braces, \<open>_parse_llm_response\<close> catches its own \<open>ValueError\<close> and returns the
  empty dictionary, which \<open>generate_recommendations\<close> returns as it is; the rule-based
  strategy is never reached.
\<close>

theorem generate_recommendations_unparsable_reply:
  "generate_recommendations yandex_only prose_backend [orders, customers]
     analytics_requirements large_temporal_patterns = Inr (JObj [])
   \<and> generate_recommendations yandex_only prose_backend [orders, customers]
     analytics_requirements large_temporal_patterns \<noteq>
     Inr (as_dict (generate_rule_based_recommendations [orders, customers]
                     analytics_requirements large_temporal_patterns))"
proof -
  have "generate_recommendations yandex_only prose_backend [orders, customers]
     analytics_requirements large_temporal_patterns = Inr (JObj [])"
    unfolding generate_recommendations_def sources_profiled try_yandex_prose
    by (simp add: then_do_def)
  then show ?thesis by (simp add: as_dict_def)
qed

subsection \<open>The schema profiler\<close>

lemma create_schema_info_Inr:
  assumes "create_schema_info df = Inr info"
  shows "distinct (map fst (df_columns df))"
    and "columns info = map fst (df_columns df)"
    and "dtypes info = map_of (df_columns df)"
    and "sample_data info = map (to_record (map fst (df_columns df))) (take 5 (df_rows df))"
    and "row_count info = int (length (df_rows df))"
    and "null_counts info =
           map_of (map (\<lambda>j. (map fst (df_columns df) ! j, isnull_sum df j)) [0..<length (df_columns df)])"
    and "unique_counts info =
           map_of (map (\<lambda>j. (map fst (df_columns df) ! j, nunique df j)) [0..<length (df_columns df)])"
  using assms by (auto simp: create_schema_info_def Let_def split: if_splits)

lemma dom_map_of_indexed:
  "dom (map_of (map (\<lambda>j. (labels ! j, f j)) [0..<length labels])) = set labels"
proof -
  have "fst ` set (map (\<lambda>j. (labels ! j, f j)) [0..<length labels]) = set (map (\<lambda>j. labels ! j) [0..<length labels])"
    by (simp add: image_image)
  also have "\<dots> = set labels" by (simp add: map_nth)
  finally show ?thesis by (simp add: dom_map_of_conv_image_fst)
qed

lemma create_schema_info_keys:
  assumes "create_schema_info df = Inr info"
  shows "dom (dtypes info) = set (columns info)"
    and "dom (null_counts info) = set (columns info)"
    and "dom (unique_counts info) = set (columns info)"
proof -
  note I = create_schema_info_Inr[OF assms]
  show "dom (dtypes info) = set (columns info)"
    unfolding I(2) I(3) by (simp add: dom_map_of_conv_image_fst)
  show "dom (null_counts info) = set (columns info)"
    unfolding I(2) I(6) using dom_map_of_indexed[of "map fst (df_columns df)"] by simp
  show "dom (unique_counts info) = set (columns info)"
    unfolding I(2) I(7) using dom_map_of_indexed[of "map fst (df_columns df)"] by simp
qed

lemma then_do_Inr:
  "then_do m f = Inr y \<longleftrightarrow> (\<exists>x. m = Inr x \<and> f x = Inr y)"
  by (cases m) (simp_all add: then_do_def)

lemma analyze_by_type_frame:
  assumes "analyze_by_type w source = Inr info"
  shows "\<exists>df. create_schema_info df = Inr info"
proof (cases "ds_type source")
  case CSV
  then have "analyze_csv w (ds_config source) = Inr info"
    using assms by (simp add: analyze_by_type_def)
  then show ?thesis
    by (auto simp: analyze_csv_def then_do_Inr split: option.splits)
next
  case POSTGRESQL
  then have "snd (analyze_postgresql_traced w (ds_config source)) = Inr info"
    using assms by (simp add: analyze_by_type_def analyze_postgresql_def)
  then show ?thesis
    by (auto simp: analyze_postgresql_traced_def Let_def split: option.splits sum.splits)
next
  case JSON
  then have "analyze_json w (ds_config source) = Inr info"
    using assms by (simp add: analyze_by_type_def)
  then show ?thesis
    by (auto simp: analyze_json_def then_do_Inr)
next
  case EXCEL
  then have "analyze_excel w (ds_config source) = Inr info"
    using assms by (simp add: analyze_by_type_def)
  then show ?thesis
    by (auto simp: analyze_excel_def then_do_Inr split: option.splits)
next
  case CLICKHOUSE
  then show ?thesis using assms by (simp add: analyze_by_type_def)
next
  case REST_API
  then show ?thesis using assms by (simp add: analyze_by_type_def)
qed

lemma empty_schema_info_keys:
  "dom (dtypes empty_schema_info) = set (columns empty_schema_info)"
  "dom (null_counts empty_schema_info) = set (columns empty_schema_info)"
  "dom (unique_counts empty_schema_info) = set (columns empty_schema_info)"
  by (simp_all add: empty_schema_info_def)

lemma analyze_source_total: "\<exists>info. analyze_source w source = Inr info"
  by (cases "analyze_by_type w source") (simp_all add: analyze_source_def)

lemma nrows_people: "nrows 1000 people_frame = people_frame"
  by (simp add: nrows_def people_frame_def)

lemma analyze_people_csv:
  "analyze_source demo_readers people_csv = create_schema_info people_frame"
proof -
  have "analyze_by_type demo_readers people_csv = create_schema_info people_frame"
    by (simp add: analyze_by_type_def people_csv_def analyze_csv_def demo_readers_def
        then_do_def nrows_people)
  moreover have "\<exists>info. create_schema_info people_frame = Inr info"
  proof -
    have "distinct (map fst (df_columns people_frame))" by (simp add: people_frame_def)
    then show ?thesis by (simp add: create_schema_info_def Let_def)
  qed
  ultimately show ?thesis by (auto simp: analyze_source_def)
qed

text \<open>
  C9. Every call of \<open>analyze_source\<close> returns a \<open>SchemaInfo\<close> (the empty one after a
  failure) in which the key set of the dtype mapping, of the null-count mapping and of the
  distinct-count mapping each equals the set of names in the columns sequence.
\<close>

theorem analyze_source_key_sets:
  "\<exists>info. analyze_source w source = Inr info
       \<and> dom (dtypes info) = set (columns info)
       \<and> dom (null_counts info) = set (columns info)
       \<and> dom (unique_counts info) = set (columns info)"
proof (cases "analyze_by_type w source")
  case (Inl e)
  then have "analyze_source w source = Inr empty_schema_info" by (simp add: analyze_source_def)
  then show ?thesis using empty_schema_info_keys by simp
next
  case (Inr info)
  then have a: "analyze_source w source = Inr info" by (simp add: analyze_source_def)
  obtain df where "create_schema_info df = Inr info"
    using analyze_by_type_frame Inr by blast
  from create_schema_info_keys[OF this] show ?thesis using a by simp
qed

theorem analyze_source_key_sets_witness:
  "\<exists>info. analyze_source demo_readers people_csv = Inr info
       \<and> columns info = [''id'', ''name'']
       \<and> dom (dtypes info) = {''id'', ''name''}
       \<and> dom (null_counts info) = {''id'', ''name''}
       \<and> dom (unique_counts info) = {''id'', ''name''}"
proof -
  from analyze_source_key_sets[of demo_readers people_csv]
  obtain info where i: "analyze_source demo_readers people_csv = Inr info"
    and k: "dom (dtypes info) = set (columns info)" "dom (null_counts info) = set (columns info)"
      "dom (unique_counts info) = set (columns info)"
    by blast
  from i have "create_schema_info people_frame = Inr info" by (simp add: analyze_people_csv)
  from create_schema_info_Inr(2)[OF this] have c: "columns info = [''id'', ''name'']"
    by (simp add: people_frame_def)
  have s: "set [''id'', ''name''] = {''id'', ''name''}" by simp
  show ?thesis using i k c s by (intro exI[of _ info]) simp
qed

text \<open>
  C2. For a source whose type is outside the supported ones (here \<open>clickhouse\<close>), the
  dispatch of \<open>analyze_source\<close> raises \<open>ValueError\<close>, but the \<open>raise\<close> sits
  inside the \<open>try\<close> whose \<open>except Exception\<close> clause catches it: the caller receives
  the empty \<open>SchemaInfo\<close> and no error. The unsupported type is therefore not reported
  as an error to the caller.
\<close>

theorem analyze_source_unsupported_swallowed:
  "ds_type clickhouse_source = CLICKHOUSE
   \<and> CLICKHOUSE \<notin> set supported_types
   \<and> analyze_by_type demo_readers clickhouse_source = Inl ValueError
   \<and> analyze_source demo_readers clickhouse_source = Inr empty_schema_info"
  by (simp add: clickhouse_source_def supported_types_def analyze_source_def analyze_by_type_def)

text \<open>
  The guard around the dispatch makes \<open>analyze_source\<close> total. For a source type
  outside the supported ones, and for any failure inside the analysis of a supported one
  (a CSV file that cannot be read, a JSON stream that cannot be decoded, or anything else
  the body raises), it returns the \<open>SchemaInfo\<close> with all fields empty or zero;
  otherwise it returns what the analysis produced.
\<close>

theorem analyze_source_never_raises:
  "(\<exists>info. analyze_source w source = Inr info)
   \<and> (ds_type source \<notin> set supported_types \<longrightarrow>
        analyze_source w source = Inr empty_schema_info)
   \<and> (\<forall>e. analyze_by_type w source = Inl e \<longrightarrow>
        analyze_source w source = Inr empty_schema_info)
   \<and> (\<forall>path e. ds_type source = CSV \<and> ds_config source ''file_data'' = None \<and>
          ds_config source ''file_path'' = Some path \<and>
          csv_table w (FilePath path) (config_get (ds_config source) ''delimiter'' '','')
            (config_get (ds_config source) ''encoding'' ''utf-8'') = Inl e \<longrightarrow>
        analyze_source w source = Inr empty_schema_info)
   \<and> (\<forall>stream e. ds_type source = JSON \<and> ds_config source ''file_data'' = Some stream \<and>
          json_load w (FileData stream) = Inl e \<longrightarrow>
        analyze_source w source = Inr empty_schema_info)
   \<and> (\<forall>info. analyze_by_type w source = Inr info \<longrightarrow> analyze_source w source = Inr info)"
proof (intro conjI allI impI)
  show "\<exists>info. analyze_source w source = Inr info" by (rule analyze_source_total)
next
  assume "ds_type source \<notin> set supported_types"
  then have "analyze_by_type w source = Inl ValueError"
    by (cases "ds_type source") (simp_all add: supported_types_def analyze_by_type_def)
  then show "analyze_source w source = Inr empty_schema_info" by (simp add: analyze_source_def)
next
  fix e assume "analyze_by_type w source = Inl e"
  then show "analyze_source w source = Inr empty_schema_info" by (simp add: analyze_source_def)
next
  fix path e
  assume a: "ds_type source = CSV \<and> ds_config source ''file_data'' = None \<and>
          ds_config source ''file_path'' = Some path \<and>
          csv_table w (FilePath path) (config_get (ds_config source) ''delimiter'' '','')
            (config_get (ds_config source) ''encoding'' ''utf-8'') = Inl e"
  then have "analyze_by_type w source = Inl e"
    by (simp add: analyze_by_type_def analyze_csv_def then_do_def)
  then show "analyze_source w source = Inr empty_schema_info" by (simp add: analyze_source_def)
next
  fix stream e
  assume a: "ds_type source = JSON \<and> ds_config source ''file_data'' = Some stream \<and>
          json_load w (FileData stream) = Inl e"
  then have "analyze_by_type w source = Inl e"
    by (simp add: analyze_by_type_def analyze_json_def then_do_def)
  then show "analyze_source w source = Inr empty_schema_info" by (simp add: analyze_source_def)
next
  fix info assume "analyze_by_type w source = Inr info"
  then show "analyze_source w source = Inr info" by (simp add: analyze_source_def)
qed

theorem analyze_source_never_raises_witness:
  "analyze_source demo_readers clickhouse_source = Inr empty_schema_info
   \<and> analyze_source demo_readers missing_csv = Inr empty_schema_info
   \<and> (\<exists>info. analyze_source demo_readers people_csv = Inr info \<and> row_count info = 7)"
proof (intro conjI)
  have u: "ds_type clickhouse_source \<notin> set supported_types"
    by (simp add: clickhouse_source_def supported_types_def)
  from analyze_source_never_raises[of demo_readers clickhouse_source, THEN conjunct2, THEN conjunct1,
      rule_format, OF u]
  show "analyze_source demo_readers clickhouse_source = Inr empty_schema_info" .
next
  have f: "ds_type missing_csv = CSV \<and> ds_config missing_csv ''file_data'' = None \<and>
          ds_config missing_csv ''file_path'' = Some ''absent.csv'' \<and>
          csv_table demo_readers (FilePath ''absent.csv'')
            (config_get (ds_config missing_csv) ''delimiter'' '','')
            (config_get (ds_config missing_csv) ''encoding'' ''utf-8'') = Inl OSError"
    by (simp add: missing_csv_def demo_readers_def)
  from analyze_source_never_raises[of demo_readers missing_csv, THEN conjunct2, THEN conjunct2,
      THEN conjunct2, THEN conjunct1, rule_format, OF f]
  show "analyze_source demo_readers missing_csv = Inr empty_schema_info" .
next
  from analyze_source_never_raises[of demo_readers people_csv, THEN conjunct1]
  obtain info where i: "analyze_source demo_readers people_csv = Inr info" by blast
  then have "create_schema_info people_frame = Inr info" by (simp add: analyze_people_csv)
  from create_schema_info_Inr(5)[OF this] have "row_count info = 7"
    by (simp add: people_frame_def)
  then show "\<exists>info. analyze_source demo_readers people_csv = Inr info \<and> row_count info = 7"
    using i by blast
qed

text \<open>
  What holds of the caps: a CSV or spreadsheet source is read with \<open>nrows=1000\<close>, and the
  preview has \<open>min(5, row_count)\<close> records for every source.
\<close>

lemma analyze_capped_frame:
  assumes "ds_type source = CSV \<or> ds_type source = EXCEL"
    and "analyze_by_type w source = Inr info"
  shows "\<exists>df. create_schema_info (nrows 1000 df) = Inr info"
  using assms
  by (auto simp: analyze_by_type_def analyze_csv_def analyze_excel_def then_do_Inr
      split: option.splits)

lemma row_cap_csv_excel:
  assumes "ds_type source = CSV \<or> ds_type source = EXCEL"
    and "analyze_source w source = Inr info"
  shows "row_count info \<le> 1000"
proof (cases "analyze_by_type w source")
  case (Inl e)
  then have "info = empty_schema_info" using assms(2) by (simp add: analyze_source_def)
  then show ?thesis by (simp add: empty_schema_info_def)
next
  case (Inr info')
  then have "analyze_by_type w source = Inr info" using assms(2) by (simp add: analyze_source_def)
  from analyze_capped_frame[OF assms(1) this]
  obtain df where "create_schema_info (nrows 1000 df) = Inr info" by blast
  from create_schema_info_Inr(5)[OF this] show ?thesis by (simp add: nrows_def)
qed

lemma sample_preview_length:
  assumes "analyze_source w source = Inr info"
  shows "int (length (sample_data info)) = min 5 (row_count info)"
proof (cases "analyze_by_type w source")
  case (Inl e)
  then have "info = empty_schema_info" using assms by (simp add: analyze_source_def)
  then show ?thesis by (simp add: empty_schema_info_def)
next
  case (Inr info')
  then have "analyze_by_type w source = Inr info" using assms by (simp add: analyze_source_def)
  then obtain df where d: "create_schema_info df = Inr info"
    using analyze_by_type_frame by blast
  show ?thesis
    unfolding create_schema_info_Inr(4)[OF d] create_schema_info_Inr(5)[OF d] by simp
qed

lemma flat_normalize_events:
  "flat_normalize (replicate 1001 (JObj [(''event'', JStr ''click'')])) =
     Inr \<lparr> df_columns = [(''event'', ''object'')], df_rows = replicate 1001 [Val ''click''] \<rparr>"
proof -
  have "replicate 1001 (JObj [(''event'', JStr ''click'')]) =
        JObj [(''event'', JStr ''click'')] # replicate 1000 (JObj [(''event'', JStr ''click'')])"
    by (simp add: replicate_Suc[symmetric] del: replicate_Suc)
  then have c: "(case replicate 1001 (JObj [(''event'', JStr ''click'')]) of
                   JObj kvs # _ \<Rightarrow> map (\<lambda>kv. (fst kv, ''object'')) kvs
                 | _ \<Rightarrow> []) = [(''event'', ''object'')]"
    by simp
  show ?thesis unfolding flat_normalize_def c by (simp add: map_replicate)
qed

text \<open>
  C3 says that every file-backed source, hierarchical documents included, yields
  \<open>row_count \<le> 1000\<close>. \<open>_analyze_json\<close> has no cap: it loads the whole document and
  normalises every element. For a document that is a list of 1001 objects the profiler
  returns \<open>row_count = 1001\<close>.
\<close>

theorem analyze_json_not_capped:
  "(case analyze_source demo_readers events_json of
      Inl e \<Rightarrow> False
    | Inr info \<Rightarrow> row_count info = 1001 \<and> \<not> row_count info \<le> 1000)"
proof -
  let ?df = "\<lparr> df_columns = [(''event'', ''object'')], df_rows = replicate 1001 [Val ''click''] \<rparr>"
  have a: "analyze_by_type demo_readers events_json = create_schema_info ?df"
    by (simp add: analyze_by_type_def events_json_def analyze_json_def demo_readers_def
        then_do_def flat_normalize_events)
  have "distinct (map fst (df_columns ?df))" by simp
  then obtain info where i: "create_schema_info ?df = Inr info"
    by (auto simp: create_schema_info_def Let_def)
  from create_schema_info_Inr(5)[OF i] have "row_count info = 1001" by simp
  then show ?thesis using a i by (simp add: analyze_source_def)
qed

text \<open>When the query succeeds the engine is disposed, as the last call on it.\<close>

lemma analyze_postgresql_disposes_on_success:
  assumes "snd (analyze_postgresql_traced w config) = Inr info"
  shows "\<exists>cs q. fst (analyze_postgresql_traced w config) = [CreateEngine cs, ReadSql q, Dispose]"
  using assms
  by (auto simp: analyze_postgresql_traced_def Let_def split: option.splits sum.splits)

text \<open>
  C4 says that the engine is released on every exit path. When \<open>pd.read_sql\<close> raises,
  \<open>_analyze_postgresql\<close> is left through the exception and \<open>engine.dispose()\<close>, the
  next statement, is never executed: the calls made on the engine are its creation and the
  query, and nothing else.
\<close>

theorem analyze_postgresql_engine_not_disposed:
  "fst (analyze_postgresql_traced demo_readers orders_table) =
     [CreateEngine ''postgresql://etl:pw@db:5432/shop'', ReadSql ''SELECT * FROM orders LIMIT 1000'']
   \<and> snd (analyze_postgresql_traced demo_readers orders_table) = Inl DatabaseError
   \<and> Dispose \<notin> set (fst (analyze_postgresql_traced demo_readers orders_table))"
proof -
  have "analyze_postgresql_traced demo_readers orders_table =
     ([CreateEngine ''postgresql://etl:pw@db:5432/shop'', ReadSql ''SELECT * FROM orders LIMIT 1000''],
      Inl DatabaseError)"
    by (simp add: analyze_postgresql_traced_def demo_readers_def orders_table_def config_get_def)
  then show ?thesis by simp
qed

subsection \<open>The end-to-end scenario\<close>

text \<open>
  The sources \<open>orders\<close> (500,000 rows) and \<open>customers\<close> (10,000 rows), classified and
  handed to the rule-based strategy with requirements that name no analytics keyword:
  510,000 rows do not exceed 1,000,000, so the storage is \<open>postgresql\<close> and there is no
  partition expression.
\<close>

lemma list_ex_filter: "filter P xs \<noteq> [] \<Longrightarrow> list_ex P xs"
  by (simp add: list_ex_iff filter_empty_conv)

lemma end_to_end_patterns:
  "as_patterns_dict (analyze_data_patterns [orders, customers, unprofiled]) =
     \<lparr> pd_total_estimated_rows = Some 510000, pd_has_temporal_data = Some True,
       pd_temporal_columns = Some [''created_at''], pd_has_geographical_data = Some True \<rparr>"
proof -
  have t: "list_ex (\<lambda>c. any_keyword_in temporal_keywords (lower c))
             [''order_id'', ''customer_id'', ''amount'', ''created_at'', ''customer_id'', ''name'', ''country'']"
    by (rule list_ex_filter) (simp only: demo_temporal, simp)
  have g: "list_ex (\<lambda>c. any_keyword_in geo_keywords (lower c))
             [''order_id'', ''customer_id'', ''amount'', ''created_at'', ''customer_id'', ''name'', ''country'']"
    by (rule list_ex_filter) (simp only: demo_geographical, simp)
  show ?thesis
    unfolding as_patterns_dict_def analyze_data_patterns_closed demo_columns demo_rows Let_def
      eqTrueI[OF t] eqTrueI[OF g] demo_temporal demo_geographical
    by simp
qed

lemma end_to_end_storage:
  "primary (storage_recommendation
      (generate_rule_based_recommendations [orders, customers, unprofiled]
         \<lparr> goal = ''customer report'', target_metrics = [''orders per customer''],
           update_frequency = DAILY, expected_load = ''low'', data_retention = ''1 year'' \<rparr>
         (as_patterns_dict (analyze_data_patterns [orders, customers, unprofiled])))) = ''postgresql''
   \<and> partitioning (schema_design
      (generate_rule_based_recommendations [orders, customers, unprofiled]
         \<lparr> goal = ''customer report'', target_metrics = [''orders per customer''],
           update_frequency = DAILY, expected_load = ''low'', data_retention = ''1 year'' \<rparr>
         (as_patterns_dict (analyze_data_patterns [orders, customers, unprofiled])))) = None"
  unfolding end_to_end_patterns rule_based_partitioning unfolding rule_based_primary
  by (simp add: analytics_keywords_def kw_sales_def kw_analytics_def kw_report_def kw_dashboard_def)

end
